theory Spec2Isabelle
  imports Main "HOL-Library.Sublist"
begin

section \<open>Strings, errors and effects\<close>

text \<open>
  A JavaScript string is modelled by the bytes of its UTF-8 encoding, as a \<open>string\<close>
  (well-formed strings, without lone surrogates). Every character the source compares
  with is ASCII, so a comparison on code units is a comparison on bytes. The regular
  expressions of \<open>promote.ts\<close> know four line terminators: LF, CR, U+2028 and U+2029;
  the last two are the byte sequences E2 80 A8 and E2 80 A9.
\<close>

abbreviation LF :: char where "LF \<equiv> CHR 0x0A"
abbreviation CR :: char where "CR \<equiv> CHR 0x0D"
abbreviation DQUOTE :: char where "DQUOTE \<equiv> CHR 0x22"

fun startsWithWideLineTerminator :: "string \<Rightarrow> bool" where
  "startsWithWideLineTerminator (c # c2 # c3 # _) =
     (c = CHR 0xE2 \<and> c2 = CHR 0x80 \<and> (c3 = CHR 0xA8 \<or> c3 = CHR 0xA9))"
| "startsWithWideLineTerminator _ = False"

fun startsWithLineTerminator :: "string \<Rightarrow> bool" where
  "startsWithLineTerminator [] = False"
| "startsWithLineTerminator (c # cs) =
     (c = LF \<or> c = CR \<or> startsWithWideLineTerminator (c # cs))"

text \<open>
  Exceptions are values. \<open>ExpectedError\<close> is the class of \<open>../errors\<close> (and its
  subclasses: \<open>instanceof ExpectedError\<close> holds of all of them); \<open>Error\<close> and
  \<open>TypeError\<close> are the built-in classes; \<open>BalenaNotLoggedIn\<close> is \<open>sdk.errors.BalenaNotLoggedIn\<close>.
\<close>

datatype exn =
    ExpectedError string
  | Error string
  | TypeError
  | BalenaNotLoggedIn

text \<open>
  \<open>if (!x)\<close> on an optional string: \<open>undefined\<close> and the empty string are falsy.
\<close>

definition truthy :: "string option \<Rightarrow> bool" where
  "truthy x = (case x of None \<Rightarrow> False | Some v \<Rightarrow> v \<noteq> [])"

text \<open>An optional string in a template: \<open>`${x}`\<close>.\<close>

definition inTemplate :: "string option \<Rightarrow> string" where
  "inTemplate x = (case x of None \<Rightarrow> ''undefined'' | Some v \<Rightarrow> v)"

text \<open>
  A fleet as the API returns it with \<open>is_for__device_type\<close> expanded. The type
  \<open>ApplicationWithDeviceType\<close> makes \<open>is_for__device_type\<close> a one-element tuple, read
  as \<open>app.is_for__device_type[0].slug\<close> everywhere: the field holds that slug. The
  fields \<open>id\<close> and \<open>slug\<close> of the source are \<open>app_id\<close> and \<open>app_slug\<close> here.
\<close>

record application =
  app_id :: nat
  app_name :: string
  app_slug :: string
  is_for__device_type :: string

text \<open>
  A device type with \<open>is_of__cpu_architecture\<close> expanded (read as
  \<open>dt.is_of__cpu_architecture[0].slug\<close>: the field holds that slug).
\<close>

record deviceType =
  slug :: string
  is_of__cpu_architecture :: string

text \<open>
  What the program does to the world is a list of events, in the order of the calls:
  the commands run on the device, the prompts shown, the lines printed, and the calls of
  the API that write. What the world answers is given by functions (the parameters of
  each operation below).
\<close>

datatype event =
    Exec string string
  | ConsoleError string
  | ConsoleLog string
  | PrintErrorMessage string
  | AskList string "string option" "(string \<times> string option) list"
  | AskInput string "string option"
  | Confirm string
  | SelectFromList string "(string \<times> application) list"
  | ApplicationCreate string string string
  | DeviceGet string
  | PinToRelease string string

type_synonym 'a outcome = "event list \<times> (exn + 'a)"

definition after :: "event list \<Rightarrow> 'a outcome option \<Rightarrow> 'a outcome option" where
  "after evs r = map_option (\<lambda>(evs', x). (evs @ evs', x)) r"

section \<open>Device probe: the OS release record\<close>

text \<open>
  \<open>/^KEY="([^"]+)"$/m.exec(output)\<close> for \<open>KEY\<close> one of \<open>SLUG\<close>, \<open>VERSION_ID\<close>.

  \<open>matchHere key s\<close> is the attempt at one position, \<open>s\<close> being the rest of the input
  there: the literal \<open>KEY="\<close>, then \<open>[^"]+\<close>, then \<open>"\<close>, then \<open>$\<close> (with the flag \<open>m\<close>:
  the end of the input, or a line terminator next). The group \<open>[^"]+\<close> is greedy and must
  be followed by a double quote, so it can only be the whole run up to the first double
  quote: a shorter run is followed by a character of the run.
\<close>

definition regexLiteral :: "string \<Rightarrow> string" where
  "regexLiteral key = key @ [CHR ''='', DQUOTE]"

fun stripPrefix :: "string \<Rightarrow> string \<Rightarrow> string option" where
  "stripPrefix [] s = Some s"
| "stripPrefix (p # ps) [] = None"
| "stripPrefix (p # ps) (c # cs) = (if p = c then stripPrefix ps cs else None)"

definition matchHere :: "string \<Rightarrow> string \<Rightarrow> string option" where
  "matchHere key s =
     (case stripPrefix (regexLiteral key) s of
        None \<Rightarrow> None
      | Some r \<Rightarrow>
          (let v = takeWhile (\<lambda>c. c \<noteq> DQUOTE) r;
               t = dropWhile (\<lambda>c. c \<noteq> DQUOTE) r
           in if v \<noteq> [] \<and>
                 (case t of [] \<Rightarrow> False | q # t' \<Rightarrow> t' = [] \<or> startsWithLineTerminator t')
              then Some v else None))"

text \<open>
  \<open>exec\<close> tries the positions from left to right and returns the first match. With the
  flag \<open>m\<close>, \<open>^\<close> holds at the start of the input and after a line terminator: \<open>bol\<close> says
  whether the current position is such a position. A three-byte line terminator is one
  code unit of the source string, so it is skipped as a whole.
\<close>

fun regexExec :: "string \<Rightarrow> bool \<Rightarrow> string \<Rightarrow> string option" where
  "regexExec key bol [] = None"
| "regexExec key bol (c # cs) =
     (case (if bol then matchHere key (c # cs) else None) of
        Some v \<Rightarrow> Some v
      | None \<Rightarrow>
          (if c = LF \<or> c = CR then regexExec key True cs
           else if startsWithWideLineTerminator (c # cs) then regexExec key True (drop 2 cs)
           else regexExec key False cs))"

text \<open>
  \<open>getDeviceOsRelease\<close> (of \<open>./ssh\<close>) reads the record from the device; it is a parameter
  here, failing or returning the text of the record.
\<close>

definition getDeviceType :: "(string \<Rightarrow> exn + string) \<Rightarrow> string \<Rightarrow> exn + string" where
  "getDeviceType getDeviceOsRelease deviceIp =
     (case getDeviceOsRelease deviceIp of
        Inl err \<Rightarrow> Inl err
      | Inr output \<Rightarrow>
          (case regexExec ''SLUG'' True output of
             None \<Rightarrow> Inl (Error ''Failed to determine device type'')
           | Some m \<Rightarrow> Inr m))"

definition getOsVersion :: "(string \<Rightarrow> exn + string) \<Rightarrow> string \<Rightarrow> exn + string" where
  "getOsVersion getDeviceOsRelease deviceIp =
     (case getDeviceOsRelease deviceIp of
        Inl err \<Rightarrow> Inl err
      | Inr output \<Rightarrow>
          (case regexExec ''VERSION_ID'' True output of
             None \<Rightarrow> Inl (Error ''Failed to determine OS version ID'')
           | Some m \<Rightarrow> Inr m))"

text \<open>
  The lines of a text, as the expressions see them: the text is cut at every line
  terminator. \<open>firstLine\<close> is the text up to the first line terminator.
\<close>

fun firstLine :: "string \<Rightarrow> string" where
  "firstLine [] = []"
| "firstLine (c # cs) = (if startsWithLineTerminator (c # cs) then [] else c # firstLine cs)"

fun splitLines :: "string \<Rightarrow> string \<Rightarrow> string list" where
  "splitLines cur [] = [cur]"
| "splitLines cur (c # cs) =
     (if c = LF \<or> c = CR then cur # splitLines [] cs
      else if startsWithWideLineTerminator (c # cs) then cur # splitLines [] (drop 2 cs)
      else splitLines (cur @ [c]) cs)"

definition recordLines :: "string \<Rightarrow> string list" where
  "recordLines output = splitLines [] output"

text \<open>A text free of line terminators, and the text made of given lines, joined by LF.\<close>

fun lineTerminatorFree :: "string \<Rightarrow> bool" where
  "lineTerminatorFree [] = True"
| "lineTerminatorFree (c # cs) = (\<not> startsWithLineTerminator (c # cs) \<and> lineTerminatorFree cs)"

fun joinLines :: "string list \<Rightarrow> string" where
  "joinLines [] = []"
| "joinLines [l] = l"
| "joinLines (l # ls) = l @ LF # joinLines ls"

section \<open>Device probe: the compatibility gate\<close>

definition MIN_BALENAOS_VERSION :: string where
  "MIN_BALENAOS_VERSION = ''v2.14.0''"

text \<open>
  The template of the message of \<open>assertDeviceIsCompatible\<close>, as the tag \<open>stripIndent\<close>
  receives it: the literal parts (each line of the source starts with three tabs) and the
  three substituted values. \<open>stripIndent\<close> (of \<open>./lazy\<close>) is a parameter, a function of
  the literal parts and the values.
\<close>

abbreviation TAB :: char where "TAB \<equiv> CHR 0x09"

definition incompatibleStrings :: "string list" where
  "incompatibleStrings =
     [[LF, TAB, TAB, TAB] @ ''Failed to execute \"'',
      ''\" on device \"'',
      ''\".'' @ [LF, TAB, TAB, TAB] @
        ''Depending on more specific error messages above, this may mean that the device'' @
        [LF, TAB, TAB, TAB] @
        ''is incompatible. Please ensure that the device is running a balenaOS release'' @
        [LF, TAB, TAB, TAB] @ ''newer than '',
      ''.'']"

text \<open>
  \<open>getLocalDeviceCmdStdout\<close> (of \<open>./ssh\<close>) runs a command on the device and fails or
  returns its output. \<open>toString\<close> is the conversion of a caught value in a template
  (\<open>`${err}\n`\<close>).
\<close>

definition instanceofExpectedError :: "exn \<Rightarrow> bool" where
  "instanceofExpectedError err = (case err of ExpectedError m \<Rightarrow> True | _ \<Rightarrow> False)"

definition assertDeviceIsCompatible ::
  "(string list \<Rightarrow> string list \<Rightarrow> string) \<Rightarrow> (exn \<Rightarrow> string) \<Rightarrow>
   (string \<Rightarrow> string \<Rightarrow> exn + string) \<Rightarrow> string \<Rightarrow> unit outcome" where
  "assertDeviceIsCompatible stripIndent toString getLocalDeviceCmdStdout deviceIp =
     (let cmd = ''os-config --version'' in
      case getLocalDeviceCmdStdout deviceIp cmd of
        Inr out \<Rightarrow> ([Exec deviceIp cmd], Inr ())
      | Inl err \<Rightarrow>
          (if instanceofExpectedError err then ([Exec deviceIp cmd], Inl err)
           else ([Exec deviceIp cmd, ConsoleError (toString err @ [LF])],
                 Inl (ExpectedError
                   (stripIndent incompatibleStrings [cmd, deviceIp, MIN_BALENAOS_VERSION])))))"

section \<open>Delivery of the configuration\<close>

text \<open>
  \<open>execCommand\<close> runs the command with a spinner around it; the spinner is not part of
  the events.
\<close>

definition execCommand ::
  "(string \<Rightarrow> string \<Rightarrow> exn + string) \<Rightarrow> string \<Rightarrow> string \<Rightarrow> string \<Rightarrow> unit outcome" where
  "execCommand getLocalDeviceCmdStdout deviceIp cmd msg =
     (case getLocalDeviceCmdStdout deviceIp cmd of
        Inl err \<Rightarrow> ([Exec deviceIp cmd], Inl err)
      | Inr out \<Rightarrow> ([Exec deviceIp cmd], Inr ()))"

text \<open>
  \<open>Buffer.from(json).toString('base64')\<close>: \<open>Buffer.from\<close> takes the UTF-8 bytes of the
  string, which are the string of the model; \<open>toString('base64')\<close> is the base64 of
  RFC 4648, with padding.
\<close>

definition base64Alphabet :: string where
  "base64Alphabet = ''ABCDEFGHIJKLMNOPQRSTUVWXYZabcdefghijklmnopqrstuvwxyz0123456789+/''"

definition base64Digit :: "nat \<Rightarrow> char" where
  "base64Digit n = base64Alphabet ! (n mod 64)"

fun base64 :: "nat list \<Rightarrow> string" where
  "base64 [] = []"
| "base64 [a] = [base64Digit (a div 4), base64Digit ((a mod 4) * 16), CHR ''='', CHR ''='']"
| "base64 [a, b] =
     [base64Digit (a div 4), base64Digit ((a mod 4) * 16 + b div 16),
      base64Digit ((b mod 16) * 4), CHR ''='']"
| "base64 (a # b # c # rest) =
     [base64Digit (a div 4), base64Digit ((a mod 4) * 16 + b div 16),
      base64Digit ((b mod 16) * 4 + c div 64), base64Digit (c mod 64)] @ base64 rest"

definition toBase64 :: "string \<Rightarrow> string" where
  "toBase64 s = base64 (map of_char s)"

text \<open>
  \<open>JSON.stringify\<close> is a parameter: it throws (a cyclic value), returns \<open>undefined\<close> (for
  \<open>undefined\<close> or a function, and then \<open>Buffer.from\<close> throws a \<open>TypeError\<close>) or returns the
  text.
\<close>

definition configure ::
  "('c \<Rightarrow> exn + string option) \<Rightarrow> (string \<Rightarrow> string \<Rightarrow> exn + string) \<Rightarrow>
   string \<Rightarrow> 'c \<Rightarrow> unit outcome" where
  "configure stringify getLocalDeviceCmdStdout deviceIp config =
     (case stringify config of
        Inl err \<Rightarrow> ([], Inl err)
      | Inr None \<Rightarrow> ([], Inl TypeError)
      | Inr (Some json) \<Rightarrow>
          (let b64 = toBase64 json;
               str = ''\"$(base64 -d <<< '' @ b64 @ '')\"''
           in execCommand getLocalDeviceCmdStdout deviceIp (''os-config join '' @ str)
                ''Configuring...''))"

definition deconfigure :: "(string \<Rightarrow> string \<Rightarrow> exn + string) \<Rightarrow> string \<Rightarrow> unit outcome" where
  "deconfigure getLocalDeviceCmdStdout deviceIp =
     execCommand getLocalDeviceCmdStdout deviceIp ''os-config leave'' ''Configuring...''"

section \<open>Device locator\<close>

text \<open>
  An entry of the discovery result; \<open>device?.address\<close> allows for an entry that is
  \<open>undefined\<close> (\<open>None\<close> in the list) and for an entry without address.
\<close>

record localDevice =
  address :: "string option"
  host :: "string option"

text \<open>
  The probes run concurrently and each pushes its device when its ping answers, so
  \<open>responsiveDevices\<close> is in the order of the answers. \<open>ping a\<close> is \<open>Some t\<close> when the
  Docker ping of the address \<open>a\<close> answers, at the time \<open>t\<close>, and \<open>None\<close> when the
  constructor or the ping throws (caught by the source).
\<close>

definition probe :: "(string \<Rightarrow> nat option) \<Rightarrow> localDevice option \<Rightarrow> (nat \<times> localDevice) option" where
  "probe ping device =
     (case device of
        None \<Rightarrow> None
      | Some d \<Rightarrow>
          (if \<not> truthy (address d) then None
           else map_option (\<lambda>t. (t, d)) (ping (the (address d)))))"

text \<open>A discovered entry responds when it has an address and its ping answers.\<close>

definition responds :: "(string \<Rightarrow> nat option) \<Rightarrow> localDevice option \<Rightarrow> bool" where
  "responds ping device = (case probe ping device of None \<Rightarrow> False | Some r \<Rightarrow> True)"

definition responsiveDevices :: "(string \<Rightarrow> nat option) \<Rightarrow> localDevice option list \<Rightarrow> localDevice list" where
  "responsiveDevices ping devices = map snd (sort_key fst (List.map_filter (probe ping) devices))"

definition choice :: "localDevice \<Rightarrow> string \<times> string option" where
  "choice device =
     ((if truthy (host device) then the (host device) else ''untitled'') @
        '' ('' @ inTemplate (address device) @ '')'',
      address device)"

text \<open>
  \<open>discover\<close> is \<open>discoverLocalBalenaOsDevices\<close>; \<open>ask\<close> is \<open>getCliForm().ask\<close> for a
  question of type \<open>list\<close>, given the message, the default and the choices (name and
  value); it returns the value of the choice taken. \<open>devices[0].address\<close> throws a \<open>TypeError\<close> when the first entry is
  \<open>undefined\<close>.
\<close>

definition selectLocalBalenaOsDevice ::
  "(nat \<Rightarrow> exn + localDevice option list) \<Rightarrow> (string \<Rightarrow> nat option) \<Rightarrow>
   (string \<Rightarrow> string option \<Rightarrow> (string \<times> string option) list \<Rightarrow> exn + string) \<Rightarrow>
   nat option \<Rightarrow> string outcome" where
  "selectLocalBalenaOsDevice discover ping ask timeout =
     (case discover (case timeout of None \<Rightarrow> 4000 | Some t \<Rightarrow> t) of
        Inl err \<Rightarrow> ([], Inl err)
      | Inr devices \<Rightarrow>
          (if responsiveDevices ping devices = []
           then ([], Inl (Error ''Could not find any local balenaOS devices''))
           else (case devices of
                   [] \<Rightarrow> ([], Inl TypeError)
                 | None # _ \<Rightarrow> ([], Inl TypeError)
                 | Some first # _ \<Rightarrow>
                     (let choices = map choice (responsiveDevices ping devices)
                      in ([AskList ''select a device'' (address first) choices],
                          ask ''select a device'' (address first) choices)))))"

section \<open>Fleet resolver\<close>

text \<open>
  The collaborators of the resolver. For the SDK: the \<open>$filter\<close> of a query is one of
  the three the source builds (by slug, by name, by device type among the compatible
  ones). For the interaction: \<open>confirm\<close> (of \<open>./patterns\<close>, called with \<open>exitIfDeclined\<close>)
  returns or fails; \<open>selectFromList\<close> (of \<open>../utils/patterns\<close>) returns one item;
  \<open>askName n\<close> is the answer to the \<open>n\<close>-th prompt for a fleet name (already valid for
  \<open>validateApplicationName\<close>, which the form checks), given the message and the default.
\<close>

datatype appFilter =
    BySlug string
  | ByAppName string
  | ByDeviceTypeIn "string list"

record sdk =
  deviceType_get :: "string \<Rightarrow> exn + deviceType"
  deviceType_getAllSupported :: "exn + deviceType list"
  isArchitectureCompatibleWith :: "string \<Rightarrow> string \<Rightarrow> bool"
  application_getAllDirectlyAccessible :: "appFilter \<Rightarrow> exn + application list"
  application_getDirectlyAccessible :: "string \<Rightarrow> string \<Rightarrow> exn + application"
  application_create :: "string \<Rightarrow> string \<Rightarrow> string \<Rightarrow> exn + nat"
  application_get :: "nat \<Rightarrow> exn + application"
  auth_whoami :: "exn + string option"

record cliForm =
  toLowerCase :: "string \<Rightarrow> string"
  confirm :: "string \<Rightarrow> exn + unit"
  selectFromList :: "string \<Rightarrow> (string \<times> application) list \<Rightarrow> exn + application"
  askName :: "nat \<Rightarrow> string \<Rightarrow> string option \<Rightarrow> exn + string"

definition selectAppFromList :: "cliForm \<Rightarrow> application list \<Rightarrow> application outcome" where
  "selectAppFromList form applications =
     (let items = map (\<lambda>app. (app_slug app, app)) applications
      in ([SelectFromList ''Select fleet'' items], selectFromList form ''Select fleet'' items))"

text \<open>
  The loop of \<open>createApplication\<close>: it asks for a name until the lookup of the name
  among the caller's fleets fails (any failure of the lookup accepts the name). It need
  not end, so the result is an option.
\<close>

partial_function (option) askApplicationName ::
  "sdk \<Rightarrow> cliForm \<Rightarrow> string \<Rightarrow> string option \<Rightarrow> nat \<Rightarrow> event list \<Rightarrow> string outcome option" where
  "askApplicationName api form username name n evs =
     (case askName form n ''Enter a name for your new fleet:'' name of
        Inl err \<Rightarrow> Some (evs @ [AskInput ''Enter a name for your new fleet:'' name], Inl err)
      | Inr appName \<Rightarrow>
          (case application_getDirectlyAccessible api appName (toLowerCase form username @ ''/'') of
             Inr found \<Rightarrow>
               askApplicationName api form username name (Suc n)
                 (evs @ [AskInput ''Enter a name for your new fleet:'' name,
                         PrintErrorMessage
                           ''You already have a fleet with that name; please choose another.''])
           | Inl err \<Rightarrow>
               Some (evs @ [AskInput ''Enter a name for your new fleet:'' name], Inr appName)))"

text \<open>
  The \<open>i\<close>-th answer collides: it is a name, and the lookup finds a fleet of the caller
  with this name, so the loop asks again.
\<close>

definition collides :: "sdk \<Rightarrow> cliForm \<Rightarrow> string \<Rightarrow> string option \<Rightarrow> nat \<Rightarrow> bool" where
  "collides api form username dflt i =
     (case askName form i ''Enter a name for your new fleet:'' dflt of
        Inl err \<Rightarrow> False
      | Inr appName \<Rightarrow>
          (case application_getDirectlyAccessible api appName (toLowerCase form username @ ''/'') of
             Inl err \<Rightarrow> False
           | Inr found \<Rightarrow> True))"

definition createApplication ::
  "sdk \<Rightarrow> cliForm \<Rightarrow> string \<Rightarrow> string option \<Rightarrow> application outcome option" where
  "createApplication api form deviceType name =
     (case auth_whoami api of
        Inl err \<Rightarrow> Some ([], Inl err)
      | Inr username \<Rightarrow>
          (if \<not> truthy username then Some ([], Inl BalenaNotLoggedIn)
           else (case askApplicationName api form (the username) name 0 [] of
                   None \<Rightarrow> None
                 | Some (evs, Inl err) \<Rightarrow> Some (evs, Inl err)
                 | Some (evs, Inr applicationName) \<Rightarrow>
                     (case application_create api applicationName deviceType (the username) of
                        Inl err \<Rightarrow>
                          Some (evs @ [ApplicationCreate applicationName deviceType (the username)],
                                Inl err)
                      | Inr newId \<Rightarrow>
                          Some (evs @ [ApplicationCreate applicationName deviceType (the username)],
                                application_get api newId)))))"

definition createOrSelectApp ::
  "sdk \<Rightarrow> cliForm \<Rightarrow> string list \<Rightarrow> string \<Rightarrow> application outcome option" where
  "createOrSelectApp api form compatibleDeviceTypes deviceType =
     (case application_getAllDirectlyAccessible api (ByDeviceTypeIn compatibleDeviceTypes) of
        Inl err \<Rightarrow> Some ([], Inl err)
      | Inr applications \<Rightarrow>
          (if applications = []
           then (let question = ''You have no fleets this device can join.'' @ [LF] @
                                ''Would you like to create one now?''
                 in case confirm form question of
                      Inl err \<Rightarrow> Some ([Confirm question], Inl err)
                    | Inr ok \<Rightarrow> after [Confirm question] (createApplication api form deviceType None))
           else Some (selectAppFromList form applications)))"

text \<open>\<open>appName.split('/')\<close>.\<close>

fun splitOn :: "char \<Rightarrow> string \<Rightarrow> string \<Rightarrow> string list" where
  "splitOn sep cur [] = [cur]"
| "splitOn sep cur (c # cs) =
     (if c = sep then cur # splitOn sep [] cs else splitOn sep (cur @ [c]) cs)"

definition split_slash :: "string \<Rightarrow> string list" where
  "split_slash appName = splitOn (CHR ''/'') [] appName"

definition compatibleDeviceTypes :: "sdk \<Rightarrow> deviceType \<Rightarrow> deviceType list \<Rightarrow> string list" where
  "compatibleDeviceTypes api deviceType allDeviceTypes =
     map slug
       (filter (\<lambda>dt. isArchitectureCompatibleWith api
                        (is_of__cpu_architecture deviceType) (is_of__cpu_architecture dt))
          allDeviceTypes)"

text \<open>
  The two queries for device types run together (\<open>Promise.all\<close>); when both fail, the
  model reports the failure of the first. \<open>compatibleDeviceTypes.includes\<close> is membership
  in the list.
\<close>

definition getOrSelectApplication ::
  "sdk \<Rightarrow> cliForm \<Rightarrow> string \<Rightarrow> string option \<Rightarrow> application outcome option" where
  "getOrSelectApplication api form deviceTypeSlug appName =
     (case deviceType_get api deviceTypeSlug of
        Inl err \<Rightarrow> Some ([], Inl err)
      | Inr deviceType \<Rightarrow>
     (case deviceType_getAllSupported api of
        Inl err \<Rightarrow> Some ([], Inl err)
      | Inr allDeviceTypes \<Rightarrow>
     (let compatible = compatibleDeviceTypes api deviceType allDeviceTypes in
      if \<not> truthy appName then createOrSelectApp api form compatible deviceTypeSlug
      else
       (let match = split_slash (the appName);
            query = (if length match > 1 then BySlug (toLowerCase form (the appName))
                     else ByAppName (the appName));
            name = (if length match > 1 then match ! 1 else the appName)
        in case application_getAllDirectlyAccessible api query of
             Inl err \<Rightarrow> Some ([], Inl err)
           | Inr applications \<Rightarrow>
               (if length applications = 0
                then (let question = ''No fleet found with name \"'' @ the appName @ ''\".'' @ [LF] @
                                     ''Would you like to create it now?''
                      in case confirm form question of
                           Inl err \<Rightarrow> Some ([Confirm question], Inl err)
                         | Inr ok \<Rightarrow>
                             after [Confirm question]
                               (createApplication api form deviceTypeSlug (Some name)))
                else (let validApplications =
                            filter (\<lambda>app. is_for__device_type app \<in> set compatible) applications
                      in if length validApplications = 0
                         then Some ([], Inl (ExpectedError ''No fleet found with a matching device type''))
                         else if length validApplications = 1
                         then Some ([], Inr (validApplications ! 0))
                         else Some (selectAppFromList form applications)))))))"

section \<open>Configuration generator\<close>

text \<open>
  A value of a configuration object: \<open>undefined\<close>, a string, or anything else (a number,
  a boolean, an object), which the code never inspects. An object is a map from its keys.
\<close>

datatype 'a jsvalue = JsUndefined | JsString string | JsOther 'a

type_synonym 'a jsobject = "string \<rightharpoonup> 'a jsvalue"

record manifestOption =
  opt_name :: string

record manifest =
  manifest_options :: "manifestOption list option"

text \<open>
  The \<open>options\<close> argument, as \<open>join\<close> builds it: both keys are present, and
  \<open>appUpdatePollInterval\<close> may be \<open>undefined\<close>.
\<close>

record 'a configOptions =
  version :: string
  appUpdatePollInterval :: "'a option"

definition optionsObject :: "'a configOptions \<Rightarrow> 'a jsobject" where
  "optionsObject options =
     [''version'' \<mapsto> JsString (version options),
      ''appUpdatePollInterval'' \<mapsto>
        (case appUpdatePollInterval options of None \<Rightarrow> JsUndefined | Some n \<Rightarrow> JsOther n)]"

text \<open>
  \<open>getManifestBySlug\<close> is \<open>sdk.models.device.getManifestBySlug\<close>; \<open>run\<close> is
  \<open>getCliForm().run\<close>, given the options and the override of \<open>appUpdatePollInterval\<close>;
  \<open>configGen\<close> is \<open>generateApplicationConfig\<close> of \<open>./config\<close>.
\<close>

definition generateApplicationConfig ::
  "(string \<Rightarrow> exn + manifest) \<Rightarrow>
   (manifestOption list \<Rightarrow> 'a option \<Rightarrow> exn + 'a jsobject) \<Rightarrow>
   (application \<Rightarrow> 'a jsobject \<Rightarrow> exn + 'a jsobject) \<Rightarrow>
   application \<Rightarrow> 'a configOptions \<Rightarrow> exn + 'a jsobject" where
  "generateApplicationConfig getManifestBySlug run configGen app options =
     (case getManifestBySlug (is_for__device_type app) of
        Inl err \<Rightarrow> Inl err
      | Inr manifest \<Rightarrow>
          (let opts = map_option (filter (\<lambda>opt. opt_name opt \<noteq> ''network''))
                        (manifest_options manifest);
               override = appUpdatePollInterval options
           in case (case opts of None \<Rightarrow> Inr Map.empty | Some os \<Rightarrow> run os override) of
                Inl err \<Rightarrow> Inl err
              | Inr answers \<Rightarrow>
                  (let values = answers ++ optionsObject options
                   in case configGen app values of
                        Inl err \<Rightarrow> Inl err
                      | Inr config \<Rightarrow>
                          (if config ''connectivity'' = Some (JsString ''connman'')
                           then Inr (config(''connectivity'' := None, ''files'' := None))
                           else Inr config))))"

section \<open>The command \<open>device pin\<close>\<close>

text \<open>
  The parsed arguments, and the device as \<open>balena.models.device.get\<close> returns it, with
  its two expanded navigation properties. \<open>getExpandedProp\<close> (of \<open>../../utils/pine\<close>) is
  a parameter: it gives the property of the expanded resource, or \<open>undefined\<close>.
\<close>

record pinArgs =
  uuid :: string
  releaseToPinTo :: "string option"

record 'n pinnedDevice =
  should_be_running__release :: 'n
  belongs_to__application :: 'n

definition pinMessage :: "string option \<Rightarrow> string option \<Rightarrow> string" where
  "pinMessage pinnedRelease appSlug =
     (if truthy pinnedRelease
      then ''This device is currently pinned to '' @ the pinnedRelease @ ''.''
      else ''This device is not currently pinned to any release.'') @
     '' '' @ [LF, LF] @
     ''To see a list of all releases this device can be pinned to, run `balena releases '' @
     inTemplate appSlug @ ''`.''"

definition DevicePinCmd_run ::
  "(string \<Rightarrow> exn + 'n pinnedDevice) \<Rightarrow> (string \<Rightarrow> string \<Rightarrow> exn + unit) \<Rightarrow>
   ('n \<Rightarrow> string \<Rightarrow> string option) \<Rightarrow> pinArgs \<Rightarrow> unit outcome" where
  "DevicePinCmd_run device_get pinToRelease getExpandedProp params =
     (case device_get (uuid params) of
        Inl err \<Rightarrow> ([DeviceGet (uuid params)], Inl err)
      | Inr device \<Rightarrow>
          (let pinnedRelease = getExpandedProp (should_be_running__release device) ''commit'';
               appSlug = getExpandedProp (belongs_to__application device) ''slug''
           in if \<not> truthy (releaseToPinTo params)
              then ([DeviceGet (uuid params), ConsoleLog (pinMessage pinnedRelease appSlug)], Inr ())
              else ([DeviceGet (uuid params), PinToRelease (uuid params) (the (releaseToPinTo params))],
                    pinToRelease (uuid params) (the (releaseToPinTo params)))))"

text \<open>The calls of \<open>pinToRelease\<close> and the lines printed, among the events.\<close>

fun pinCalls :: "event list \<Rightarrow> (string \<times> string) list" where
  "pinCalls [] = []"
| "pinCalls (PinToRelease u commit # evs) = (u, commit) # pinCalls evs"
| "pinCalls (ev # evs) = pinCalls evs"

fun printed :: "event list \<Rightarrow> string list" where
  "printed [] = []"
| "printed (ConsoleLog line # evs) = line # printed evs"
| "printed (ev # evs) = printed evs"

section \<open>Example inputs\<close>

text \<open>
  Records, devices, collaborators and answers at which the theorems below are
  evaluated. \<open>accessible fleets\<close> is an API that holds the given fleets and applies the
  filter of the query.
\<close>

definition osRelease_example :: "string \<Rightarrow> exn + string" where
  "osRelease_example deviceIp =
     Inr (joinLines [''ID=\"balena-os\"'', ''VERSION_ID=\"2.101.7\"'', ''SLUG=\"raspberrypi4-64\"'', ''MACHINE=\"raspberrypi4-64\"'', []])"

definition osRelease_noKeys :: "string \<Rightarrow> exn + string" where
  "osRelease_noKeys deviceIp = Inr (joinLines [''ID=\"balena-os\"'', ''NAME=\"balenaOS\"'', []])"

definition osRelease_emptyValues :: "string \<Rightarrow> exn + string" where
  "osRelease_emptyValues deviceIp = Inr (joinLines [''SLUG=\"\"'', ''VERSION_ID=\"\"''])"

definition osRelease_emptyBoth :: "string \<Rightarrow> exn + string" where
  "osRelease_emptyBoth deviceIp = Inr (joinLines [''SLUG=\"\"'', ''ID=\"balena-os\"'', ''VERSION_ID=\"\"''])"

definition osRelease_windows :: "string \<Rightarrow> exn + string" where
  "osRelease_windows deviceIp =
     Inr (''ID=\"balena-os\"'' @ [CR, LF] @ ''SLUG=\"intel-nuc\"'' @ [CR, LF] @
          ''VERSION_ID=\"2.98.33\"'' @ [CR, LF])"

definition osRelease_keysAbsent :: "string \<Rightarrow> exn + string" where
  "osRelease_keysAbsent deviceIp = Inr (joinLines [''ID=\"balena-os\"''])"

definition stringify_example :: "unit \<Rightarrow> exn + string option" where
  "stringify_example config = Inr (Some ''{\"applicationId\":1}'')"

definition exec_ok :: "string \<Rightarrow> string \<Rightarrow> exn + string" where
  "exec_ok deviceIp cmd = Inr []"

definition plainTemplate :: "string list \<Rightarrow> string list \<Rightarrow> string" where
  "plainTemplate strings vals = concat (map (\<lambda>(s, v). s @ v) (zip strings (vals @ [[]])))"

definition describe :: "exn \<Rightarrow> string" where
  "describe err =
     (case err of
        ExpectedError m \<Rightarrow> ''ExpectedError: '' @ m
      | Error m \<Rightarrow> ''Error: '' @ m
      | TypeError \<Rightarrow> ''TypeError''
      | BalenaNotLoggedIn \<Rightarrow> ''BalenaNotLoggedIn'')"

definition exec_version :: "string \<Rightarrow> string \<Rightarrow> exn + string" where
  "exec_version deviceIp cmd = Inr ''os-config 1.2.1''"

definition exec_nonZeroExit :: "string \<Rightarrow> string \<Rightarrow> exn + string" where
  "exec_nonZeroExit deviceIp cmd = Inl (ExpectedError ''Remote command exited with non-zero status code 127'')"

definition exec_unreachable :: "string \<Rightarrow> string \<Rightarrow> exn + string" where
  "exec_unreachable deviceIp cmd = Inl (Error ''connect EHOSTUNREACH'')"

definition exec_permissionDenied :: "string \<Rightarrow> string \<Rightarrow> exn + string" where
  "exec_permissionDenied deviceIp cmd = Inl (ExpectedError ''SSH: permission denied'')"

definition manifest_example :: "string \<Rightarrow> exn + manifest" where
  "manifest_example deviceTypeSlug =
     Inr \<lparr>manifest_options = Some [\<lparr>opt_name = ''network''\<rparr>, \<lparr>opt_name = ''advanced''\<rparr>]\<rparr>"

definition form_example :: "manifestOption list \<Rightarrow> nat option \<Rightarrow> exn + nat jsobject" where
  "form_example opts override = Inr [''appUpdatePollInterval'' \<mapsto> JsOther 10]"

definition configGen_connman :: "application \<Rightarrow> nat jsobject \<Rightarrow> exn + nat jsobject" where
  "configGen_connman app vals =
     Inr [''applicationId'' \<mapsto> JsOther (app_id app), ''connectivity'' \<mapsto> JsString ''connman'',
          ''files'' \<mapsto> JsOther 0]"

definition configGen_networkManager :: "application \<Rightarrow> nat jsobject \<Rightarrow> exn + nat jsobject" where
  "configGen_networkManager app vals =
     Inr [''applicationId'' \<mapsto> JsOther (app_id app), ''connectivity'' \<mapsto> JsString ''NetworkManager'',
          ''files'' \<mapsto> JsOther 0]"

definition app_example :: application where
  "app_example = \<lparr>app_id = 7, app_name = ''myfleet'', app_slug = ''myorg/myfleet'',
                   is_for__device_type = ''raspberrypi4-64''\<rparr>"

definition options_example :: "nat configOptions" where
  "options_example = \<lparr>version = ''2.101.7'', appUpdatePollInterval = Some 10\<rparr>"

definition device_found :: "string \<Rightarrow> exn + (string option) pinnedDevice" where
  "device_found u =
     Inr \<lparr>should_be_running__release = Some ''91165e5'', belongs_to__application = Some ''myorg/myfleet''\<rparr>"

definition device_notFound :: "string \<Rightarrow> exn + (string option) pinnedDevice" where
  "device_notFound u = Inl (Error ''Device not found'')"

definition pin_ok :: "string \<Rightarrow> string \<Rightarrow> exn + unit" where
  "pin_ok u commit = Inr ()"

definition expanded :: "string option \<Rightarrow> string \<Rightarrow> string option" where
  "expanded resource key = resource"

definition discover_one :: "nat \<Rightarrow> exn + localDevice option list" where
  "discover_one timeout = Inr [Some \<lparr>address = Some ''192.168.1.50'', host = Some ''balena.local''\<rparr>]"

definition discover_two :: "nat \<Rightarrow> exn + localDevice option list" where
  "discover_two timeout =
     Inr [Some \<lparr>address = Some ''192.168.1.50'', host = Some ''balena.local''\<rparr>,
          Some \<lparr>address = Some ''192.168.1.51'', host = None\<rparr>]"

definition ping_all :: "string \<Rightarrow> nat option" where
  "ping_all a = Some 12"

definition ping_none :: "string \<Rightarrow> nat option" where
  "ping_none a = None"

definition ping_second :: "string \<Rightarrow> nat option" where
  "ping_second a = (if a = ''192.168.1.51'' then Some 30 else None)"

definition ask_firstChoice ::
  "string \<Rightarrow> string option \<Rightarrow> (string \<times> string option) list \<Rightarrow> exn + string" where
  "ask_firstChoice message dflt choices =
     (case choices of [] \<Rightarrow> Inl (Error ''no choices'') | c # cs \<Rightarrow> Inr (inTemplate (snd c)))"

definition asciiLower :: "string \<Rightarrow> string" where
  "asciiLower s =
     map (\<lambda>c. if (65::nat) \<le> of_char c \<and> of_char c \<le> (90::nat)
              then char_of (of_char c + (32::nat)) else c) s"

definition rpi4 :: deviceType where
  "rpi4 = \<lparr>slug = ''raspberrypi4-64'', is_of__cpu_architecture = ''aarch64''\<rparr>"

definition nuc :: deviceType where
  "nuc = \<lparr>slug = ''intel-nuc'', is_of__cpu_architecture = ''amd64''\<rparr>"

definition fleet1 :: application where
  "fleet1 = \<lparr>app_id = 1, app_name = ''myapp'', app_slug = ''org1/myapp'',
              is_for__device_type = ''raspberrypi4-64''\<rparr>"

definition fleet2 :: application where
  "fleet2 = \<lparr>app_id = 2, app_name = ''myapp'', app_slug = ''org2/myapp'',
              is_for__device_type = ''raspberrypi4-64''\<rparr>"

definition fleet3 :: application where
  "fleet3 = \<lparr>app_id = 3, app_name = ''myapp'', app_slug = ''org3/myapp'',
              is_for__device_type = ''intel-nuc''\<rparr>"

definition created :: application where
  "created = \<lparr>app_id = 42, app_name = ''myfleet'', app_slug = ''alice/myfleet'',
               is_for__device_type = ''raspberrypi4-64''\<rparr>"

definition accessible :: "application list \<Rightarrow> appFilter \<Rightarrow> exn + application list" where
  "accessible fleets query =
     (case query of
        BySlug s \<Rightarrow> Inr (filter (\<lambda>app. app_slug app = s) fleets)
      | ByAppName n \<Rightarrow> Inr (filter (\<lambda>app. app_name app = n) fleets)
      | ByDeviceTypeIn slugs \<Rightarrow> Inr (filter (\<lambda>app. is_for__device_type app \<in> set slugs) fleets))"

definition sdk_threeFleets :: sdk where
  "sdk_threeFleets =
     \<lparr>deviceType_get = (\<lambda>s. Inr rpi4),
      deviceType_getAllSupported = Inr [rpi4, nuc],
      isArchitectureCompatibleWith = (\<lambda>a b. a = b),
      application_getAllDirectlyAccessible = accessible [fleet1, fleet2, fleet3],
      application_getDirectlyAccessible = (\<lambda>n p. Inl (Error ''Application not found'')),
      application_create = (\<lambda>n d org. Inr 42),
      application_get = (\<lambda>i. Inr created),
      auth_whoami = Inr (Some ''alice'')\<rparr>"

definition sdk_noFleets :: sdk where
  "sdk_noFleets =
     \<lparr>deviceType_get = (\<lambda>s. Inr rpi4),
      deviceType_getAllSupported = Inr [rpi4, nuc],
      isArchitectureCompatibleWith = (\<lambda>a b. a = b),
      application_getAllDirectlyAccessible = accessible [],
      application_getDirectlyAccessible = (\<lambda>n p. Inl (Error ''Application not found'')),
      application_create = (\<lambda>n d org. Inr 42),
      application_get = (\<lambda>i. Inr created),
      auth_whoami = Inr (Some ''alice'')\<rparr>"

definition sdk_nameTaken :: sdk where
  "sdk_nameTaken =
     \<lparr>deviceType_get = (\<lambda>s. Inr rpi4),
      deviceType_getAllSupported = Inr [rpi4, nuc],
      isArchitectureCompatibleWith = (\<lambda>a b. a = b),
      application_getAllDirectlyAccessible = accessible [],
      application_getDirectlyAccessible =
        (\<lambda>n p. if n = ''myfleet'' then Inr created else Inl (Error ''Application not found'')),
      application_create = (\<lambda>n d org. Inr 42),
      application_get = (\<lambda>i. Inr created),
      auth_whoami = Inr (Some ''alice'')\<rparr>"

definition form_picksLast :: cliForm where
  "form_picksLast =
     \<lparr>toLowerCase = asciiLower,
      confirm = (\<lambda>q. Inr ()),
      selectFromList = (\<lambda>m items. Inr (snd (last items))),
      askName = (\<lambda>n m d. Inr ''myfleet'')\<rparr>"

definition form_acceptsDefault :: cliForm where
  "form_acceptsDefault =
     \<lparr>toLowerCase = asciiLower,
      confirm = (\<lambda>q. Inr ()),
      selectFromList = (\<lambda>m items. Inr (snd (last items))),
      askName = (\<lambda>n m d. case d of None \<Rightarrow> Inr ''fleet'' | Some v \<Rightarrow> Inr v)\<rparr>"

definition form_secondTry :: cliForm where
  "form_secondTry =
     \<lparr>toLowerCase = asciiLower,
      confirm = (\<lambda>q. Inr ()),
      selectFromList = (\<lambda>m items. Inr (snd (last items))),
      askName = (\<lambda>n m d. if n = 0 then Inr ''myfleet'' else Inr ''myfleet2'')\<rparr>"

section \<open>Properties of the device probe\<close>

lemma stripPrefix_eq: "stripPrefix p s = (if prefix p s then Some (drop (length p) s) else None)"
  by (induction p s rule: stripPrefix.induct) auto

lemma stripPrefix_append: "stripPrefix p (p @ r) = Some r"
  by (simp add: stripPrefix_eq)

lemma matchHere_not_prefix:
  "\<not> prefix (regexLiteral key) s \<Longrightarrow> matchHere key s = None"
  by (simp add: matchHere_def stripPrefix_eq)

lemma matchHere_empty_value:
  "matchHere key (regexLiteral key @ DQUOTE # t) = None"
  by (simp add: matchHere_def stripPrefix_append)

lemma matchHere_value:
  assumes "s \<noteq> []" and "DQUOTE \<notin> set s" and "t = [] \<or> startsWithLineTerminator t"
  shows "matchHere key (regexLiteral key @ s @ DQUOTE # t) = Some s"
proof -
  have tw: "takeWhile (\<lambda>c. c \<noteq> DQUOTE) (s @ DQUOTE # t) = s"
    using assms(2) by (induction s) auto
  have dw: "dropWhile (\<lambda>c. c \<noteq> DQUOTE) (s @ DQUOTE # t) = DQUOTE # t"
    using assms(2) by (induction s) auto
  show ?thesis
    using assms(1,3) by (simp add: matchHere_def stripPrefix_append tw dw)
qed

lemma splitLines_cur: "splitLines cur s = (cur @ firstLine s) # tl (splitLines [] s)"
proof (induction s arbitrary: cur rule: firstLine.induct)
  case 1
  show ?case by simp
next
  case (2 c cs)
  show ?case
  proof (cases "startsWithLineTerminator (c # cs)")
    case True
    then show ?thesis by auto
  next
    case False
    then have "splitLines cur (c # cs) = splitLines (cur @ [c]) cs"
      and "splitLines [] (c # cs) = splitLines [c] cs" by auto
    moreover have "splitLines (cur @ [c]) cs = ((cur @ [c]) @ firstLine cs) # tl (splitLines [] cs)"
      using False by (rule "2.IH")
    moreover have "splitLines [c] cs = ([c] @ firstLine cs) # tl (splitLines [] cs)"
      using False by (rule "2.IH")
    ultimately show ?thesis using False by simp
  qed
qed

lemma recordLines_Cons: "recordLines s = firstLine s # tl (recordLines s)"
  using splitLines_cur[of "[]" s] by (simp add: recordLines_def)

lemma firstLine_rest:
  "\<exists>t. s = firstLine s @ t \<and> (t = [] \<or> startsWithLineTerminator t)"
proof (induction s rule: firstLine.induct)
  case 1
  show ?case by simp
next
  case (2 c cs)
  show ?case
  proof (cases "startsWithLineTerminator (c # cs)")
    case True
    then have "c # cs = firstLine (c # cs) @ (c # cs) \<and> startsWithLineTerminator (c # cs)" by simp
    then show ?thesis by blast
  next
    case False
    with "2.IH" obtain t where "cs = firstLine cs @ t" "t = [] \<or> startsWithLineTerminator t" by blast
    with False have "c # cs = firstLine (c # cs) @ t \<and> (t = [] \<or> startsWithLineTerminator t)" by simp
    then show ?thesis by blast
  qed
qed

lemma not_prefix_firstLine:
  assumes "\<not> prefix p (firstLine s)"
    and "LF \<notin> set p" and "CR \<notin> set p" and "CHR 0xE2 \<notin> set p"
  shows "\<not> prefix p s"
proof
  assume ps: "prefix p s"
  from firstLine_rest[of s] obtain t where t: "s = firstLine s @ t" "t = [] \<or> startsWithLineTerminator t"
    by blast
  from ps t(1) have "prefix p (firstLine s @ t)" by simp
  then have "prefix p (firstLine s) \<or> (\<exists>us. p = firstLine s @ us \<and> prefix us t)"
    by (simp add: prefix_append)
  with assms(1) obtain us where us: "p = firstLine s @ us" "prefix us t" by blast
  with assms(1) have "us \<noteq> []" by auto
  then obtain u us' where u: "us = u # us'" by (cases us) auto
  with us(2) obtain t' where t': "t = u # t'" by (cases t) auto
  with t(2) have "startsWithLineTerminator (u # t')" by simp
  then have "u = LF \<or> u = CR \<or> u = CHR 0xE2"
    by (cases "u # t'" rule: startsWithWideLineTerminator.cases) auto
  moreover have "u \<in> set p" using us(1) u by simp
  ultimately show False using assms(2,3,4) by auto
qed

lemma literal_plain:
  assumes "key = ''SLUG'' \<or> key = ''VERSION_ID''"
  shows "LF \<notin> set (regexLiteral key) \<and> CR \<notin> set (regexLiteral key) \<and>
         CHR 0xE2 \<notin> set (regexLiteral key)"
  using assms by (auto simp: regexLiteral_def)

lemma matchHere_rejected:
  assumes "key = ''SLUG'' \<or> key = ''VERSION_ID''"
    and "\<not> prefix (regexLiteral key) (firstLine s) \<or> firstLine s = regexLiteral key @ [DQUOTE]"
  shows "matchHere key s = None"
proof (cases "prefix (regexLiteral key) (firstLine s)")
  case False
  from literal_plain[OF assms(1)]
  have "LF \<notin> set (regexLiteral key)" "CR \<notin> set (regexLiteral key)"
    "CHR 0xE2 \<notin> set (regexLiteral key)" by blast+
  with False have "\<not> prefix (regexLiteral key) s" by (rule not_prefix_firstLine)
  then show ?thesis by (rule matchHere_not_prefix)
next
  case True
  with assms(2) have fl: "firstLine s = regexLiteral key @ [DQUOTE]" by blast
  from firstLine_rest[of s] obtain t where t: "s = firstLine s @ t" by blast
  have "s = regexLiteral key @ DQUOTE # t"
    by (subst t, subst fl) simp
  then show ?thesis by (simp only: matchHere_empty_value)
qed

lemma matchHere_accepted:
  assumes "firstLine s = regexLiteral key @ v @ [DQUOTE]" and "v \<noteq> []" and "DQUOTE \<notin> set v"
  shows "matchHere key s = Some v"
proof -
  from firstLine_rest[of s] obtain t where t: "s = firstLine s @ t" "t = [] \<or> startsWithLineTerminator t"
    by blast
  have "s = regexLiteral key @ v @ DQUOTE # t"
    by (subst t(1), subst assms(1)) simp
  with matchHere_value[OF assms(2,3) t(2), of key] show ?thesis by (simp only:)
qed

lemma regexExec_unfold:
  "regexExec key bol (c # cs) =
     (case (if bol then matchHere key (c # cs) else None) of
        Some v \<Rightarrow> Some v
      | None \<Rightarrow>
          (if c = LF \<or> c = CR then regexExec key True cs
           else if startsWithWideLineTerminator (c # cs) then regexExec key True (drop 2 cs)
           else regexExec key False cs))"
  by simp

lemma tl_splitLines_step:
  "tl (splitLines cur (c # cs)) =
     (if c = LF \<or> c = CR then splitLines [] cs
      else if startsWithWideLineTerminator (c # cs) then splitLines [] (drop 2 cs)
      else tl (splitLines [] cs))"
proof -
  have "tl (splitLines (cur @ [c]) cs) = tl (splitLines [] cs)"
    using splitLines_cur[of "cur @ [c]" cs] by simp
  then show ?thesis by simp
qed

lemma regexExec_continue:
  assumes "(if bol then matchHere key (c # cs) else None) = None"
  shows "regexExec key bol (c # cs) =
          (if c = LF \<or> c = CR then regexExec key True cs
           else if startsWithWideLineTerminator (c # cs) then regexExec key True (drop 2 cs)
           else regexExec key False cs)"
  using assms by (simp only: regexExec_unfold option.case)

lemma regexExec_no_match:
  "key = ''SLUG'' \<or> key = ''VERSION_ID'' \<Longrightarrow>
   list_all (\<lambda>l. \<not> prefix (regexLiteral key) l \<or> l = regexLiteral key @ [DQUOTE])
     (if bol then splitLines [] s else tl (splitLines [] s)) \<Longrightarrow>
   regexExec key bol s = None"
proof (induction key bol s rule: regexExec.induct)
  case (1 key bol)
  show ?case by simp
next
  case (2 key bol c cs)
  let ?rej = "\<lambda>l. \<not> prefix (regexLiteral key) l \<or> l = regexLiteral key @ [DQUOTE]"
  note key = "2.prems"(1)
  have sp: "splitLines [] (c # cs) = firstLine (c # cs) # tl (splitLines [] (c # cs))"
    using splitLines_cur[of "[]" "c # cs"] by simp
  have all: "bol \<Longrightarrow> list_all ?rej (firstLine (c # cs) # tl (splitLines [] (c # cs)))"
    using "2.prems"(2) sp by simp
  have rest: "list_all ?rej (tl (splitLines [] (c # cs)))"
  proof (cases bol)
    case True
    from all[OF True] show ?thesis by simp
  next
    case False
    with "2.prems"(2) show ?thesis by simp
  qed
  have scrut: "(if bol then matchHere key (c # cs) else None) = None"
  proof (cases bol)
    case True
    from all[OF True] have "?rej (firstLine (c # cs))" by simp
    with key have "matchHere key (c # cs) = None" by (rule matchHere_rejected)
    with True show ?thesis by simp
  next
    case False
    then show ?thesis by simp
  qed
  note unfold = regexExec_continue[OF scrut]
  note step = tl_splitLines_step[of "[]" c cs]
  show ?case
  proof (cases "c = LF \<or> c = CR")
    case True
    with rest step have "list_all ?rej (if True then splitLines [] cs else tl (splitLines [] cs))"
      by simp
    with "2.IH"(1)[OF scrut True key] have "regexExec key True cs = None" .
    with unfold True show ?thesis by simp
  next
    case False
    note notnl = this
    show ?thesis
    proof (cases "startsWithWideLineTerminator (c # cs)")
      case True
      with rest step notnl
      have "list_all ?rej (if True then splitLines [] (drop 2 cs) else tl (splitLines [] (drop 2 cs)))"
        by simp
      with "2.IH"(2)[OF scrut notnl True key] have "regexExec key True (drop 2 cs) = None" .
      with unfold True notnl show ?thesis by simp
    next
      case False
      with rest step notnl
      have "list_all ?rej (if False then splitLines [] cs else tl (splitLines [] cs))"
        by simp
      with "2.IH"(3)[OF scrut notnl False key] have "regexExec key False cs = None" .
      with unfold False notnl show ?thesis by simp
    qed
  qed
qed

lemma regexExec_match:
  "key = ''SLUG'' \<or> key = ''VERSION_ID'' \<Longrightarrow> v \<noteq> [] \<Longrightarrow> DQUOTE \<notin> set v \<Longrightarrow>
   find (prefix (regexLiteral key)) (if bol then splitLines [] s else tl (splitLines [] s)) =
     Some (regexLiteral key @ v @ [DQUOTE]) \<Longrightarrow>
   regexExec key bol s = Some v"
proof (induction key bol s rule: regexExec.induct)
  case (1 key bol)
  then show ?case by (cases bol) (simp_all add: regexLiteral_def)
next
  case (2 key bol c cs)
  let ?P = "prefix (regexLiteral key)"
  let ?line = "regexLiteral key @ v @ [DQUOTE]"
  note key = "2.prems"(1) and v = "2.prems"(2,3)
  have sp: "splitLines [] (c # cs) = firstLine (c # cs) # tl (splitLines [] (c # cs))"
    using splitLines_cur[of "[]" "c # cs"] by simp
  show ?case
  proof (cases "bol \<and> ?P (firstLine (c # cs))")
    case True
    then have "find ?P (firstLine (c # cs) # tl (splitLines [] (c # cs))) = Some ?line"
      using "2.prems"(4) sp by simp
    with True have "firstLine (c # cs) = ?line" by simp
    then have "matchHere key (c # cs) = Some v" using v by (rule matchHere_accepted)
    with True show ?thesis by (simp only: regexExec_unfold if_True option.case)
  next
    case False
    have rest: "find ?P (tl (splitLines [] (c # cs))) = Some ?line"
    proof (cases bol)
      case True
      with False have "\<not> ?P (firstLine (c # cs))" by simp
      moreover have "find ?P (firstLine (c # cs) # tl (splitLines [] (c # cs))) = Some ?line"
        using "2.prems"(4) sp True by simp
      ultimately show ?thesis by simp
    next
      case False
      with "2.prems"(4) show ?thesis by simp
    qed
    have scrut: "(if bol then matchHere key (c # cs) else None) = None"
    proof (cases bol)
      case True
      with False have "\<not> ?P (firstLine (c # cs)) \<or> firstLine (c # cs) = regexLiteral key @ [DQUOTE]"
        by simp
      with key have "matchHere key (c # cs) = None" by (rule matchHere_rejected)
      with True show ?thesis by simp
    next
      case False
      then show ?thesis by simp
    qed
    note unfold = regexExec_continue[OF scrut]
    note step = tl_splitLines_step[of "[]" c cs]
    show ?thesis
    proof (cases "c = LF \<or> c = CR")
      case True
      with rest step have "find ?P (if True then splitLines [] cs else tl (splitLines [] cs)) = Some ?line"
        by simp
      with "2.IH"(1)[OF scrut True key v] have "regexExec key True cs = Some v" .
      with unfold True show ?thesis by simp
    next
      case False
      note notnl = this
      show ?thesis
      proof (cases "startsWithWideLineTerminator (c # cs)")
        case True
        with rest step notnl
        have "find ?P (if True then splitLines [] (drop 2 cs) else tl (splitLines [] (drop 2 cs))) =
                Some ?line"
          by simp
        with "2.IH"(2)[OF scrut notnl True key v] have "regexExec key True (drop 2 cs) = Some v" .
        with unfold True notnl show ?thesis by simp
      next
        case False
        with rest step notnl
        have "find ?P (if False then splitLines [] cs else tl (splitLines [] cs)) = Some ?line"
          by simp
        with "2.IH"(3)[OF scrut notnl False key v] have "regexExec key False cs = Some v" .
        with unfold False notnl show ?thesis by simp
      qed
    qed
  qed
qed

text \<open>
  Claim C5, as amended. For every record: if the first line that starts with
  \<open>SLUG="\<close> is \<open>SLUG="s"\<close> and the first line that starts with \<open>VERSION_ID="\<close> is
  \<open>VERSION_ID="v"\<close>, where \<open>s\<close> and \<open>v\<close> are not empty and contain no double quote, then
  \<open>getDeviceType\<close> returns exactly \<open>s\<close> and \<open>getOsVersion\<close> returns exactly \<open>v\<close>, whatever
  the order of the two lines and whatever the other lines are.
\<close>

theorem probe_returns_values:
  assumes "getDeviceOsRelease deviceIp = Inr out"
    and "find (prefix ''SLUG=\"'') (recordLines out) = Some (''SLUG=\"'' @ s @ ''\"'')"
    and "s \<noteq> []" and "DQUOTE \<notin> set s"
    and "find (prefix ''VERSION_ID=\"'') (recordLines out) = Some (''VERSION_ID=\"'' @ v @ ''\"'')"
    and "v \<noteq> []" and "DQUOTE \<notin> set v"
  shows "getDeviceType getDeviceOsRelease deviceIp = Inr s \<and>
         getOsVersion getDeviceOsRelease deviceIp = Inr v"
proof -
  have "regexExec ''SLUG'' True out = Some s"
    using assms(2,3,4) by (intro regexExec_match) (simp_all add: regexLiteral_def recordLines_def)
  moreover have "regexExec ''VERSION_ID'' True out = Some v"
    using assms(5,6,7) by (intro regexExec_match) (simp_all add: regexLiteral_def recordLines_def)
  ultimately show ?thesis
    using assms(1) by (simp add: getDeviceType_def getOsVersion_def)
qed

text \<open>
  The theorem at a record of five lines ended by LF, with \<open>VERSION_ID\<close> before \<open>SLUG\<close> and
  two unrelated keys, and at a record whose lines end with CR LF.
\<close>

theorem probe_returns_values_witness:
  "getDeviceType osRelease_example ''192.168.1.50'' = Inr ''raspberrypi4-64'' \<and>
   getOsVersion osRelease_example ''192.168.1.50'' = Inr ''2.101.7'' \<and>
   getDeviceType osRelease_windows ''192.168.1.50'' = Inr ''intel-nuc'' \<and>
   getOsVersion osRelease_windows ''192.168.1.50'' = Inr ''2.98.33''"
  using probe_returns_values[where getDeviceOsRelease = osRelease_example and deviceIp = "''192.168.1.50''"
      and out = "joinLines [''ID=\"balena-os\"'', ''VERSION_ID=\"2.101.7\"'', ''SLUG=\"raspberrypi4-64\"'', ''MACHINE=\"raspberrypi4-64\"'', []]"
      and s = "''raspberrypi4-64''" and v = "''2.101.7''"]
    probe_returns_values[where getDeviceOsRelease = osRelease_windows and deviceIp = "''192.168.1.50''"
      and out = "''ID=\"balena-os\"'' @ [CR, LF] @ ''SLUG=\"intel-nuc\"'' @ [CR, LF] @
          ''VERSION_ID=\"2.98.33\"'' @ [CR, LF]"
      and s = "''intel-nuc''" and v = "''2.98.33''"]
  by (simp add: osRelease_example_def osRelease_windows_def recordLines_def)

text \<open>
  Claim C5 as stated fails for an empty value: the record has the lines \<open>SLUG=""\<close> and
  \<open>VERSION_ID=""\<close>, and neither probe returns the empty string: both fail.
\<close>

theorem probe_returns_values_counterexample:
  "getDeviceType osRelease_emptyValues ''192.168.1.50'' = Inl (Error ''Failed to determine device type'') \<and>
   getOsVersion osRelease_emptyValues ''192.168.1.50'' = Inl (Error ''Failed to determine OS version ID'')"
  by (simp add: osRelease_emptyValues_def getDeviceType_def getOsVersion_def matchHere_def regexLiteral_def)

text \<open>
  Claim C6. For every record: if no line starts with \<open>SLUG="\<close>, \<open>getDeviceType\<close> fails
  with the error \<open>Failed to determine device type\<close>; if no line starts with
  \<open>VERSION_ID="\<close>, \<open>getOsVersion\<close> fails with the error
  \<open>Failed to determine OS version ID\<close>. Neither returns a value.
\<close>

theorem probe_missing_key:
  assumes "getDeviceOsRelease deviceIp = Inr out"
  shows "(\<not> list_ex (prefix ''SLUG=\"'') (recordLines out) \<longrightarrow>
            getDeviceType getDeviceOsRelease deviceIp = Inl (Error ''Failed to determine device type'')) \<and>
         (\<not> list_ex (prefix ''VERSION_ID=\"'') (recordLines out) \<longrightarrow>
            getOsVersion getDeviceOsRelease deviceIp = Inl (Error ''Failed to determine OS version ID''))"
proof (intro conjI impI)
  assume "\<not> list_ex (prefix ''SLUG=\"'') (recordLines out)"
  then have "regexExec ''SLUG'' True out = None"
    by (intro regexExec_no_match) (simp_all add: list_all_iff list_ex_iff regexLiteral_def recordLines_def)
  with assms show "getDeviceType getDeviceOsRelease deviceIp = Inl (Error ''Failed to determine device type'')"
    by (simp add: getDeviceType_def)
next
  assume "\<not> list_ex (prefix ''VERSION_ID=\"'') (recordLines out)"
  then have "regexExec ''VERSION_ID'' True out = None"
    by (intro regexExec_no_match) (simp_all add: list_all_iff list_ex_iff regexLiteral_def recordLines_def)
  with assms show "getOsVersion getDeviceOsRelease deviceIp = Inl (Error ''Failed to determine OS version ID'')"
    by (simp add: getOsVersion_def)
qed

text \<open>The theorem at a record with neither key.\<close>

theorem probe_missing_key_witness:
  "\<not> list_ex (prefix ''SLUG=\"'') (recordLines (joinLines [''ID=\"balena-os\"'', ''NAME=\"balenaOS\"'', []])) \<and>
   \<not> list_ex (prefix ''VERSION_ID=\"'') (recordLines (joinLines [''ID=\"balena-os\"'', ''NAME=\"balenaOS\"'', []])) \<and>
   getDeviceType osRelease_noKeys ''192.168.1.50'' = Inl (Error ''Failed to determine device type'') \<and>
   getOsVersion osRelease_noKeys ''192.168.1.50'' = Inl (Error ''Failed to determine OS version ID'')"
  using probe_missing_key[of osRelease_noKeys "''192.168.1.50''" "joinLines [''ID=\"balena-os\"'', ''NAME=\"balenaOS\"'', []]"]
  by (simp add: osRelease_noKeys_def recordLines_def)

text \<open>
  Claim C9. If the record has the line \<open>SLUG=""\<close> and no other line starts with
  \<open>SLUG="\<close>, \<open>getDeviceType\<close> fails, with the error it gives for any record where no line
  starts with \<open>SLUG="\<close>; likewise for \<open>VERSION_ID=""\<close> and \<open>getOsVersion\<close>. The expression
  accepts a quoted value of at least one character only.
\<close>

theorem probe_empty_value:
  assumes "getDeviceOsRelease deviceIp = Inr out"
    and "keyAbsent deviceIp = Inr out'"
  shows "(''SLUG=\"\"'' \<in> set (recordLines out) \<and>
          list_all (\<lambda>l. \<not> prefix ''SLUG=\"'' l \<or> l = ''SLUG=\"\"'') (recordLines out) \<and>
          \<not> list_ex (prefix ''SLUG=\"'') (recordLines out') \<longrightarrow>
            getDeviceType getDeviceOsRelease deviceIp = Inl (Error ''Failed to determine device type'') \<and>
            getDeviceType getDeviceOsRelease deviceIp = getDeviceType keyAbsent deviceIp) \<and>
         (''VERSION_ID=\"\"'' \<in> set (recordLines out) \<and>
          list_all (\<lambda>l. \<not> prefix ''VERSION_ID=\"'' l \<or> l = ''VERSION_ID=\"\"'') (recordLines out) \<and>
          \<not> list_ex (prefix ''VERSION_ID=\"'') (recordLines out') \<longrightarrow>
            getOsVersion getDeviceOsRelease deviceIp = Inl (Error ''Failed to determine OS version ID'') \<and>
            getOsVersion getDeviceOsRelease deviceIp = getOsVersion keyAbsent deviceIp)"
proof (intro conjI impI)
  assume a: "''SLUG=\"\"'' \<in> set (recordLines out) \<and>
          list_all (\<lambda>l. \<not> prefix ''SLUG=\"'' l \<or> l = ''SLUG=\"\"'') (recordLines out) \<and>
          \<not> list_ex (prefix ''SLUG=\"'') (recordLines out')"
  then have "regexExec ''SLUG'' True out = None"
    by (intro regexExec_no_match) (simp_all add: regexLiteral_def recordLines_def)
  moreover from a have "regexExec ''SLUG'' True out' = None"
    by (intro regexExec_no_match) (simp_all add: list_all_iff list_ex_iff regexLiteral_def recordLines_def)
  ultimately show "getDeviceType getDeviceOsRelease deviceIp = Inl (Error ''Failed to determine device type'')"
    and "getDeviceType getDeviceOsRelease deviceIp = getDeviceType keyAbsent deviceIp"
    using assms by (simp_all add: getDeviceType_def)
next
  assume a: "''VERSION_ID=\"\"'' \<in> set (recordLines out) \<and>
          list_all (\<lambda>l. \<not> prefix ''VERSION_ID=\"'' l \<or> l = ''VERSION_ID=\"\"'') (recordLines out) \<and>
          \<not> list_ex (prefix ''VERSION_ID=\"'') (recordLines out')"
  then have "regexExec ''VERSION_ID'' True out = None"
    by (intro regexExec_no_match) (simp_all add: regexLiteral_def recordLines_def)
  moreover from a have "regexExec ''VERSION_ID'' True out' = None"
    by (intro regexExec_no_match) (simp_all add: list_all_iff list_ex_iff regexLiteral_def recordLines_def)
  ultimately show "getOsVersion getDeviceOsRelease deviceIp = Inl (Error ''Failed to determine OS version ID'')"
    and "getOsVersion getDeviceOsRelease deviceIp = getOsVersion keyAbsent deviceIp"
    using assms by (simp_all add: getOsVersion_def)
qed

text \<open>
  The theorem at a record where both keys have an empty value, compared with a record
  that has neither key.
\<close>

theorem probe_empty_value_witness:
  "''SLUG=\"\"'' \<in> set (recordLines (joinLines [''SLUG=\"\"'', ''ID=\"balena-os\"'', ''VERSION_ID=\"\"''])) \<and>
   ''VERSION_ID=\"\"'' \<in> set (recordLines (joinLines [''SLUG=\"\"'', ''ID=\"balena-os\"'', ''VERSION_ID=\"\"''])) \<and>
   getDeviceType osRelease_emptyBoth ''192.168.1.50'' = Inl (Error ''Failed to determine device type'') \<and>
   getDeviceType osRelease_emptyBoth ''192.168.1.50'' = getDeviceType osRelease_keysAbsent ''192.168.1.50'' \<and>
   getOsVersion osRelease_emptyBoth ''192.168.1.50'' = Inl (Error ''Failed to determine OS version ID'') \<and>
   getOsVersion osRelease_emptyBoth ''192.168.1.50'' = getOsVersion osRelease_keysAbsent ''192.168.1.50''"
  using probe_empty_value[of osRelease_emptyBoth "''192.168.1.50''"
      "joinLines [''SLUG=\"\"'', ''ID=\"balena-os\"'', ''VERSION_ID=\"\"'']" osRelease_keysAbsent
      "joinLines [''ID=\"balena-os\"'']"]
  by (auto simp add: osRelease_emptyBoth_def osRelease_keysAbsent_def recordLines_def)

section \<open>Properties of the delivery\<close>

lemma base64Digit_in: "base64Digit n \<in> set base64Alphabet"
proof -
  have "length base64Alphabet = 64" by (simp add: base64Alphabet_def)
  then have "n mod 64 < length base64Alphabet" by simp
  then show ?thesis unfolding base64Digit_def by (rule nth_mem)
qed

lemma base64_chars: "set (base64 bs) \<subseteq> insert (CHR ''='') (set base64Alphabet)"
  by (induction bs rule: base64.induct) (auto simp: base64Digit_in)

lemma base64_plain: "list_all (\<lambda>c. c \<noteq> LF \<and> c \<noteq> CR \<and> c \<noteq> CHR 0xE2) (base64 bs)"
proof -
  have "list_all (\<lambda>c. c \<noteq> LF \<and> c \<noteq> CR \<and> c \<noteq> CHR 0xE2) (CHR ''='' # base64Alphabet)"
    by (simp add: base64Alphabet_def)
  then have "\<forall>c\<in>insert (CHR ''='') (set base64Alphabet). c \<noteq> LF \<and> c \<noteq> CR \<and> c \<noteq> CHR 0xE2"
    by (simp only: list_all_iff list.set)
  with base64_chars[of bs] show ?thesis
    unfolding list_all_iff by blast
qed

lemma lineTerminatorFree_plain:
  assumes "list_all (\<lambda>c. c \<noteq> LF \<and> c \<noteq> CR \<and> c \<noteq> CHR 0xE2) s"
  shows "lineTerminatorFree s"
  using assms
proof (induction s)
  case Nil
  show ?case by simp
next
  case (Cons c cs)
  then have c: "c \<noteq> LF" "c \<noteq> CR" "c \<noteq> CHR 0xE2" by simp_all
  have "\<not> startsWithWideLineTerminator (c # cs)"
    using c(3) by (cases "c # cs" rule: startsWithWideLineTerminator.cases) simp_all
  with c Cons show ?case by simp
qed

lemma join_command_single_line:
  "lineTerminatorFree (''os-config join \"$(base64 -d <<< '' @ toBase64 json @ '')\"'')"
proof (rule lineTerminatorFree_plain)
  have "list_all (\<lambda>c. c \<noteq> LF \<and> c \<noteq> CR \<and> c \<noteq> CHR 0xE2) ''os-config join \"$(base64 -d <<< ''"
    by simp
  moreover have "list_all (\<lambda>c. c \<noteq> LF \<and> c \<noteq> CR \<and> c \<noteq> CHR 0xE2) '')\"''"
    by simp
  ultimately show "list_all (\<lambda>c. c \<noteq> LF \<and> c \<noteq> CR \<and> c \<noteq> CHR 0xE2)
      (''os-config join \"$(base64 -d <<< '' @ toBase64 json @ '')\"'')"
    using base64_plain[of "map of_char json"]
    by (simp only: list_all_append toBase64_def simp_thms)
qed

text \<open>
  Claim C8. When \<open>JSON.stringify\<close> gives the text \<open>json\<close> for the payload, \<open>configure\<close>
  runs exactly one command on the device: \<open>os-config join "$(base64 -d <<< b64)"\<close>, where
  \<open>b64\<close> is the base64 of \<open>json\<close>; this command has no line terminator. \<open>deconfigure\<close>
  runs exactly the command \<open>os-config leave\<close>.
\<close>

theorem configure_command:
  assumes "stringify config = Inr (Some json)"
  shows "fst (configure stringify getLocalDeviceCmdStdout deviceIp config) =
           [Exec deviceIp (''os-config join \"$(base64 -d <<< '' @ toBase64 json @ '')\"'')] \<and>
         lineTerminatorFree (''os-config join \"$(base64 -d <<< '' @ toBase64 json @ '')\"'') \<and>
         fst (deconfigure getLocalDeviceCmdStdout deviceIp) = [Exec deviceIp ''os-config leave'']"
proof -
  have "fst (configure stringify getLocalDeviceCmdStdout deviceIp config) =
           [Exec deviceIp (''os-config join \"$(base64 -d <<< '' @ toBase64 json @ '')\"'')]"
    using assms by (simp add: configure_def execCommand_def Let_def split: sum.splits)
  moreover have "fst (deconfigure getLocalDeviceCmdStdout deviceIp) = [Exec deviceIp ''os-config leave'']"
    by (simp add: deconfigure_def execCommand_def split: sum.splits)
  ultimately show ?thesis using join_command_single_line by simp
qed

lemma toBase64_padding:
  "toBase64 ''Man'' = ''TWFu'' \<and> toBase64 ''Ma'' = ''TWE='' \<and> toBase64 ''M'' = ''TQ=='' \<and>
   toBase64 [] = []"
  by (simp add: toBase64_def base64Digit_def base64Alphabet_def)

lemma toBase64_example: "toBase64 ''{\"applicationId\":1}'' = ''eyJhcHBsaWNhdGlvbklkIjoxfQ==''"
  by (simp add: toBase64_def base64Digit_def base64Alphabet_def)

text \<open>The theorem at the payload \<open>{"applicationId":1}\<close>.\<close>

theorem configure_command_witness:
  "fst (configure stringify_example exec_ok ''192.168.1.50'' ()) =
     [Exec ''192.168.1.50'' ''os-config join \"$(base64 -d <<< eyJhcHBsaWNhdGlvbklkIjoxfQ==)\"''] \<and>
   fst (deconfigure exec_ok ''192.168.1.50'') = [Exec ''192.168.1.50'' ''os-config leave'']"
  using configure_command[of stringify_example "()" "''{\"applicationId\":1}''" exec_ok "''192.168.1.50''"]
  by (simp add: stringify_example_def toBase64_example)

section \<open>Properties of the compatibility gate\<close>

text \<open>
  Claim C3, as amended. \<open>assertDeviceIsCompatible\<close> succeeds when the command
  \<open>os-config --version\<close> runs. A failure that is an \<open>ExpectedError\<close> is thrown again as
  it is. Every other failure is printed to the standard error and replaced by an
  \<open>ExpectedError\<close> whose message is the template with \<open>MIN_BALENAOS_VERSION\<close> as its
  last value: the caller does not get the failure itself.
\<close>

theorem assertDeviceIsCompatible_outcome:
  "(getLocalDeviceCmdStdout deviceIp ''os-config --version'' = Inr out \<longrightarrow>
      assertDeviceIsCompatible stripIndent toString getLocalDeviceCmdStdout deviceIp =
        ([Exec deviceIp ''os-config --version''], Inr ())) \<and>
   (getLocalDeviceCmdStdout deviceIp ''os-config --version'' = Inl (ExpectedError m) \<longrightarrow>
      assertDeviceIsCompatible stripIndent toString getLocalDeviceCmdStdout deviceIp =
        ([Exec deviceIp ''os-config --version''], Inl (ExpectedError m))) \<and>
   (getLocalDeviceCmdStdout deviceIp ''os-config --version'' = Inl err \<and>
    \<not> instanceofExpectedError err \<longrightarrow>
      assertDeviceIsCompatible stripIndent toString getLocalDeviceCmdStdout deviceIp =
        ([Exec deviceIp ''os-config --version'', ConsoleError (toString err @ [LF])],
         Inl (ExpectedError
           (stripIndent incompatibleStrings
              [''os-config --version'', deviceIp, MIN_BALENAOS_VERSION]))) \<and>
      snd (assertDeviceIsCompatible stripIndent toString getLocalDeviceCmdStdout deviceIp) \<noteq> Inl err)"
  by (auto simp: assertDeviceIsCompatible_def instanceofExpectedError_def Let_def split: exn.splits)

text \<open>
  The theorem at three devices: one that answers, one that refuses the connection with
  an \<open>ExpectedError\<close>, one that is unreachable.
\<close>

theorem assertDeviceIsCompatible_outcome_witness:
  "assertDeviceIsCompatible plainTemplate describe exec_version ''192.168.1.50'' =
     ([Exec ''192.168.1.50'' ''os-config --version''], Inr ()) \<and>
   assertDeviceIsCompatible plainTemplate describe exec_permissionDenied ''192.168.1.50'' =
     ([Exec ''192.168.1.50'' ''os-config --version''], Inl (ExpectedError ''SSH: permission denied'')) \<and>
   assertDeviceIsCompatible plainTemplate describe exec_unreachable ''192.168.1.50'' =
     ([Exec ''192.168.1.50'' ''os-config --version'',
       ConsoleError (''Error: connect EHOSTUNREACH'' @ [LF])],
      Inl (ExpectedError
        (plainTemplate incompatibleStrings [''os-config --version'', ''192.168.1.50'', ''v2.14.0''])))"
  using assertDeviceIsCompatible_outcome[of exec_version "''192.168.1.50''" "''os-config 1.2.1''" plainTemplate describe]
    assertDeviceIsCompatible_outcome[of exec_permissionDenied "''192.168.1.50''" _ plainTemplate describe "''SSH: permission denied''"]
    assertDeviceIsCompatible_outcome[of exec_unreachable "''192.168.1.50''" _ plainTemplate describe _ "Error ''connect EHOSTUNREACH''"]
  by (simp add: exec_version_def exec_permissionDenied_def exec_unreachable_def describe_def
      instanceofExpectedError_def MIN_BALENAOS_VERSION_def)

text \<open>
  Claim C3 as stated fails when the command fails with an \<open>ExpectedError\<close> (a non-zero
  exit status here): the caller gets that error, and its message does not name the
  minimum version.
\<close>

theorem assertDeviceIsCompatible_counterexample:
  "snd (assertDeviceIsCompatible plainTemplate describe exec_nonZeroExit ''192.168.1.50'') =
     Inl (ExpectedError ''Remote command exited with non-zero status code 127'') \<and>
   \<not> sublist MIN_BALENAOS_VERSION ''Remote command exited with non-zero status code 127''"
proof -
  have "\<not> sublist MIN_BALENAOS_VERSION ''Remote command exited with non-zero status code 127''"
    unfolding MIN_BALENAOS_VERSION_def by code_simp
  then show ?thesis
    by (simp add: assertDeviceIsCompatible_def exec_nonZeroExit_def instanceofExpectedError_def Let_def)
qed

section \<open>Properties of the configuration generator and of the command device pin\<close>

text \<open>
  Claim C7. Let \<open>config\<close> be the payload that \<open>configGen\<close> returns. The result of
  \<open>generateApplicationConfig\<close> has neither \<open>connectivity\<close> nor \<open>files\<close> when
  \<open>config.connectivity\<close> is the string \<open>connman\<close>; otherwise it has both as \<open>config\<close> has
  them; and every other key is as in \<open>config\<close>.
\<close>

theorem generateApplicationConfig_strips:
  assumes "getManifestBySlug (is_for__device_type app) = Inr m"
    and "(case manifest_options m of
            None \<Rightarrow> Inr Map.empty
          | Some os \<Rightarrow> form (filter (\<lambda>opt. opt_name opt \<noteq> ''network'') os)
                         (appUpdatePollInterval options)) = Inr answers"
    and "configGen app (answers ++ optionsObject options) = Inr config"
  shows "case generateApplicationConfig getManifestBySlug form configGen app options of
           Inl err \<Rightarrow> False
         | Inr result \<Rightarrow>
             (config ''connectivity'' = Some (JsString ''connman'') \<longrightarrow>
                result ''connectivity'' = None \<and> result ''files'' = None) \<and>
             (config ''connectivity'' \<noteq> Some (JsString ''connman'') \<longrightarrow>
                result ''connectivity'' = config ''connectivity'' \<and> result ''files'' = config ''files'') \<and>
             (\<forall>k. k \<noteq> ''connectivity'' \<and> k \<noteq> ''files'' \<longrightarrow> result k = config k)"
proof -
  have "generateApplicationConfig getManifestBySlug form configGen app options =
          Inr (if config ''connectivity'' = Some (JsString ''connman'')
               then config(''connectivity'' := None, ''files'' := None) else config)"
  proof (cases "manifest_options m")
    case None
    with assms(2) have "answers = Map.empty" by simp
    with assms(1,3) None show ?thesis
      by (simp add: generateApplicationConfig_def Let_def)
  next
    case (Some os)
    with assms show ?thesis
      by (simp add: generateApplicationConfig_def Let_def)
  qed
  then show ?thesis by simp
qed

text \<open>The theorem at a payload with \<open>connman\<close> and at one with \<open>NetworkManager\<close>.\<close>

theorem generateApplicationConfig_strips_witness:
  "(case generateApplicationConfig manifest_example form_example configGen_connman app_example options_example of
      Inl err \<Rightarrow> False
    | Inr result \<Rightarrow> result ''connectivity'' = None \<and> result ''files'' = None \<and>
                     result ''applicationId'' = Some (JsOther 7)) \<and>
   (case generateApplicationConfig manifest_example form_example configGen_networkManager app_example options_example of
      Inl err \<Rightarrow> False
    | Inr result \<Rightarrow> result ''connectivity'' = Some (JsString ''NetworkManager'') \<and>
                     result ''files'' = Some (JsOther 0) \<and>
                     result ''applicationId'' = Some (JsOther 7))"
  using generateApplicationConfig_strips[of manifest_example app_example
      "\<lparr>manifest_options = Some [\<lparr>opt_name = ''network''\<rparr>, \<lparr>opt_name = ''advanced''\<rparr>]\<rparr>"
      form_example options_example "[''appUpdatePollInterval'' \<mapsto> JsOther 10]" configGen_connman
      "[''applicationId'' \<mapsto> JsOther 7, ''connectivity'' \<mapsto> JsString ''connman'', ''files'' \<mapsto> JsOther 0]"]
    generateApplicationConfig_strips[of manifest_example app_example
      "\<lparr>manifest_options = Some [\<lparr>opt_name = ''network''\<rparr>, \<lparr>opt_name = ''advanced''\<rparr>]\<rparr>"
      form_example options_example "[''appUpdatePollInterval'' \<mapsto> JsOther 10]" configGen_networkManager
      "[''applicationId'' \<mapsto> JsOther 7, ''connectivity'' \<mapsto> JsString ''NetworkManager'', ''files'' \<mapsto> JsOther 0]"]
  by (auto simp: manifest_example_def form_example_def configGen_connman_def
      configGen_networkManager_def app_example_def options_example_def split: sum.splits)

text \<open>
  Claim C10, as amended. When the device is found: if the commit is omitted or empty,
  the command reads the device and prints its state, and does not pin; if the commit is
  not empty, it reads the device and calls \<open>pinToRelease\<close> once, with the uuid and the
  commit, and prints nothing. When the lookup of the device fails, the command fails
  with the error of the lookup: it prints nothing and does not pin, whatever the commit.
\<close>

theorem DevicePinCmd_run_effects:
  "(device_get (uuid params) = Inr device \<and> \<not> truthy (releaseToPinTo params) \<longrightarrow>
      DevicePinCmd_run device_get pinToRelease getExpandedProp params =
        ([DeviceGet (uuid params),
          ConsoleLog (pinMessage (getExpandedProp (should_be_running__release device) ''commit'')
                        (getExpandedProp (belongs_to__application device) ''slug''))],
         Inr ()) \<and>
      pinCalls (fst (DevicePinCmd_run device_get pinToRelease getExpandedProp params)) = [] \<and>
      printed (fst (DevicePinCmd_run device_get pinToRelease getExpandedProp params)) =
        [pinMessage (getExpandedProp (should_be_running__release device) ''commit'')
           (getExpandedProp (belongs_to__application device) ''slug'')]) \<and>
   (device_get (uuid params) = Inr device \<and> truthy (releaseToPinTo params) \<longrightarrow>
      DevicePinCmd_run device_get pinToRelease getExpandedProp params =
        ([DeviceGet (uuid params), PinToRelease (uuid params) (the (releaseToPinTo params))],
         pinToRelease (uuid params) (the (releaseToPinTo params))) \<and>
      pinCalls (fst (DevicePinCmd_run device_get pinToRelease getExpandedProp params)) =
        [(uuid params, the (releaseToPinTo params))] \<and>
      printed (fst (DevicePinCmd_run device_get pinToRelease getExpandedProp params)) = []) \<and>
   (device_get (uuid params) = Inl err \<longrightarrow>
      DevicePinCmd_run device_get pinToRelease getExpandedProp params =
        ([DeviceGet (uuid params)], Inl err) \<and>
      pinCalls (fst (DevicePinCmd_run device_get pinToRelease getExpandedProp params)) = [] \<and>
      printed (fst (DevicePinCmd_run device_get pinToRelease getExpandedProp params)) = [])"
  by (simp add: DevicePinCmd_run_def Let_def)

text \<open>
  The theorem for a device that is found, without a commit and with the commit
  \<open>91165e5\<close>, and for a device that is not found, with and without a commit.
\<close>

theorem DevicePinCmd_run_effects_witness:
  "DevicePinCmd_run device_found pin_ok expanded \<lparr>uuid = ''7cf02a6'', releaseToPinTo = None\<rparr> =
     ([DeviceGet ''7cf02a6'',
       ConsoleLog (''This device is currently pinned to 91165e5. '' @ [LF, LF] @
         ''To see a list of all releases this device can be pinned to, run `balena releases myorg/myfleet`.'')],
      Inr ()) \<and>
   DevicePinCmd_run device_found pin_ok expanded \<lparr>uuid = ''7cf02a6'', releaseToPinTo = Some ''91165e5''\<rparr> =
     ([DeviceGet ''7cf02a6'', PinToRelease ''7cf02a6'' ''91165e5''], Inr ()) \<and>
   DevicePinCmd_run device_notFound pin_ok expanded \<lparr>uuid = ''7cf02a6'', releaseToPinTo = Some ''91165e5''\<rparr> =
     ([DeviceGet ''7cf02a6''], Inl (Error ''Device not found'')) \<and>
   DevicePinCmd_run device_notFound pin_ok expanded \<lparr>uuid = ''7cf02a6'', releaseToPinTo = None\<rparr> =
     ([DeviceGet ''7cf02a6''], Inl (Error ''Device not found''))"
  using DevicePinCmd_run_effects[where device_get = device_found
          and params = "\<lparr>uuid = ''7cf02a6'', releaseToPinTo = None\<rparr>"
          and pinToRelease = pin_ok and getExpandedProp = expanded
          and device = "\<lparr>should_be_running__release = Some ''91165e5'',
                          belongs_to__application = Some ''myorg/myfleet''\<rparr>"]
    DevicePinCmd_run_effects[where device_get = device_found
          and params = "\<lparr>uuid = ''7cf02a6'', releaseToPinTo = Some ''91165e5''\<rparr>"
          and pinToRelease = pin_ok and getExpandedProp = expanded
          and device = "\<lparr>should_be_running__release = Some ''91165e5'',
                          belongs_to__application = Some ''myorg/myfleet''\<rparr>"]
    DevicePinCmd_run_effects[where device_get = device_notFound
          and params = "\<lparr>uuid = ''7cf02a6'', releaseToPinTo = Some ''91165e5''\<rparr>"
          and pinToRelease = pin_ok and getExpandedProp = expanded
          and err = "Error ''Device not found''"]
    DevicePinCmd_run_effects[where device_get = device_notFound
          and params = "\<lparr>uuid = ''7cf02a6'', releaseToPinTo = None\<rparr>"
          and pinToRelease = pin_ok and getExpandedProp = expanded
          and err = "Error ''Device not found''"]
  by (simp add: device_found_def device_notFound_def pin_ok_def expanded_def truthy_def
      pinMessage_def inTemplate_def)

text \<open>
  Claim C10 as stated fails in two ways: with the empty string as commit the command
  prints the state and does not pin; and when the device is not found, a supplied commit
  is not pinned at all (and nothing is printed).
\<close>

theorem DevicePinCmd_run_counterexample:
  "pinCalls (fst (DevicePinCmd_run device_found pin_ok expanded
      \<lparr>uuid = ''7cf02a6'', releaseToPinTo = Some []\<rparr>)) = [] \<and>
   printed (fst (DevicePinCmd_run device_found pin_ok expanded
      \<lparr>uuid = ''7cf02a6'', releaseToPinTo = Some []\<rparr>)) =
     [''This device is currently pinned to 91165e5. '' @ [LF, LF] @
      ''To see a list of all releases this device can be pinned to, run `balena releases myorg/myfleet`.''] \<and>
   pinCalls (fst (DevicePinCmd_run device_notFound pin_ok expanded
      \<lparr>uuid = ''7cf02a6'', releaseToPinTo = Some ''91165e5''\<rparr>)) = [] \<and>
   printed (fst (DevicePinCmd_run device_notFound pin_ok expanded
      \<lparr>uuid = ''7cf02a6'', releaseToPinTo = Some ''91165e5''\<rparr>)) = []"
  by (simp add: DevicePinCmd_run_def device_found_def device_notFound_def expanded_def truthy_def
      pinMessage_def inTemplate_def)

section \<open>Properties of the device locator\<close>

lemma responsiveDevices_filter:
  "responsiveDevices ping devices =
     map snd (sort_key fst (map (the \<circ> probe ping) (filter (responds ping) devices)))"
proof -
  have "responds ping = (\<lambda>x. probe ping x \<noteq> None)"
    by (auto simp: responds_def fun_eq_iff split: option.splits)
  then show ?thesis by (simp add: responsiveDevices_def map_filter_def)
qed

lemma responsiveDevices_none:
  "\<not> list_ex (responds ping) devices \<Longrightarrow> responsiveDevices ping devices = []"
proof -
  assume "\<not> list_ex (responds ping) devices"
  then have "filter (responds ping) devices = []" by (simp add: list_ex_iff filter_empty_conv)
  then show ?thesis by (simp add: responsiveDevices_filter)
qed

lemma responsiveDevices_one:
  assumes "filter (responds ping) devices = [Some d]"
  shows "responsiveDevices ping devices = [d]"
proof -
  have "Some d \<in> set (filter (responds ping) devices)" using assms by simp
  then have "responds ping (Some d)" by simp
  then obtain t where "probe ping (Some d) = Some (t, d)"
    by (auto simp: responds_def probe_def split: option.splits if_splits)
  with assms show ?thesis by (simp add: responsiveDevices_filter)
qed

text \<open>
  Claim C2, as amended. When no discovered candidate answers the ping,
  \<open>selectLocalBalenaOsDevice\<close> fails with the error
  \<open>Could not find any local balenaOS devices\<close>, without any prompt. When exactly one
  candidate answers (and the first discovered entry is defined), it shows the list
  prompt \<open>select a device\<close> with that candidate as the only choice and the first
  discovered address as default, and returns the answer of the prompt.
\<close>

theorem selectLocalBalenaOsDevice_outcome:
  assumes "discover (case timeout of None \<Rightarrow> 4000 | Some t \<Rightarrow> t) = Inr devices"
  shows "(\<not> list_ex (responds ping) devices \<longrightarrow>
            selectLocalBalenaOsDevice discover ping ask timeout =
              ([], Inl (Error ''Could not find any local balenaOS devices''))) \<and>
         (filter (responds ping) devices = [Some d] \<and> devices = Some first # others \<longrightarrow>
            selectLocalBalenaOsDevice discover ping ask timeout =
              ([AskList ''select a device'' (address first) [choice d]],
               ask ''select a device'' (address first) [choice d]))"
proof (intro conjI impI)
  assume "\<not> list_ex (responds ping) devices"
  then have "responsiveDevices ping devices = []" by (rule responsiveDevices_none)
  with assms show "selectLocalBalenaOsDevice discover ping ask timeout =
              ([], Inl (Error ''Could not find any local balenaOS devices''))"
    by (simp add: selectLocalBalenaOsDevice_def)
next
  assume a: "filter (responds ping) devices = [Some d] \<and> devices = Some first # others"
  then have f: "filter (responds ping) devices = [Some d]" and ds: "devices = Some first # others"
    by blast+
  from f have "responsiveDevices ping devices = [d]" by (rule responsiveDevices_one)
  with assms ds show "selectLocalBalenaOsDevice discover ping ask timeout =
              ([AskList ''select a device'' (address first) [choice d]],
               ask ''select a device'' (address first) [choice d])"
    by (simp add: selectLocalBalenaOsDevice_def Let_def)
qed

text \<open>
  The theorem at two discovered devices, when none answers and when only the second
  answers.
\<close>

theorem selectLocalBalenaOsDevice_outcome_witness:
  "selectLocalBalenaOsDevice discover_two ping_none ask_firstChoice None =
     ([], Inl (Error ''Could not find any local balenaOS devices'')) \<and>
   selectLocalBalenaOsDevice discover_two ping_second ask_firstChoice None =
     ([AskList ''select a device'' (Some ''192.168.1.50'') [(''untitled (192.168.1.51)'', Some ''192.168.1.51'')]],
      Inr ''192.168.1.51'')"
  using selectLocalBalenaOsDevice_outcome[where discover = discover_two and timeout = None
          and devices = "[Some \<lparr>address = Some ''192.168.1.50'', host = Some ''balena.local''\<rparr>,
            Some \<lparr>address = Some ''192.168.1.51'', host = None\<rparr>]"
          and ping = ping_none and ask = ask_firstChoice]
    selectLocalBalenaOsDevice_outcome[where discover = discover_two and timeout = None
          and devices = "[Some \<lparr>address = Some ''192.168.1.50'', host = Some ''balena.local''\<rparr>,
            Some \<lparr>address = Some ''192.168.1.51'', host = None\<rparr>]"
          and ping = ping_second and ask = ask_firstChoice
          and d = "\<lparr>address = Some ''192.168.1.51'', host = None\<rparr>"
          and first = "\<lparr>address = Some ''192.168.1.50'', host = Some ''balena.local''\<rparr>"
          and others = "[Some \<lparr>address = Some ''192.168.1.51'', host = None\<rparr>]"]
  by (simp add: discover_two_def ping_none_def ping_second_def ask_firstChoice_def responds_def
      probe_def truthy_def choice_def inTemplate_def Let_def)

text \<open>
  Claim C2 as stated fails: with one discovered device, which answers the ping, the
  prompt is shown all the same, with this device as its only choice.
\<close>

theorem selectLocalBalenaOsDevice_counterexample:
  "selectLocalBalenaOsDevice discover_one ping_all ask_firstChoice None =
     ([AskList ''select a device'' (Some ''192.168.1.50'')
         [(''balena.local (192.168.1.50)'', Some ''192.168.1.50'')]],
      Inr ''192.168.1.50'')"
  by (simp add: selectLocalBalenaOsDevice_def discover_one_def ping_all_def ask_firstChoice_def
      responsiveDevices_def probe_def truthy_def choice_def map_filter_def inTemplate_def Let_def)

section \<open>Properties of the fleet resolver\<close>

text \<open>
  Claim C1, at an input where the code breaks it. The device is a \<open>raspberrypi4-64\<close>
  (\<open>aarch64\<close>); three fleets are named \<open>myapp\<close>, two for this device type and one for
  \<open>intel-nuc\<close> (\<open>amd64\<close>, not compatible). Two fleets are valid, so the list is shown: it
  holds all three fleets, not the two valid ones, and the user who picks the third gets
  the fleet for \<open>intel-nuc\<close>.
\<close>

theorem getOrSelectApplication_offers_incompatible:
  "getOrSelectApplication sdk_threeFleets form_picksLast ''raspberrypi4-64'' (Some ''myapp'') =
     Some ([SelectFromList ''Select fleet''
              [(''org1/myapp'', fleet1), (''org2/myapp'', fleet2), (''org3/myapp'', fleet3)]],
           Inr fleet3) \<and>
   is_for__device_type fleet3 = ''intel-nuc'' \<and>
   compatibleDeviceTypes sdk_threeFleets rpi4 [rpi4, nuc] = [''raspberrypi4-64'']"
  by (simp add: getOrSelectApplication_def sdk_threeFleets_def form_picksLast_def truthy_def
      split_slash_def compatibleDeviceTypes_def rpi4_def nuc_def fleet1_def fleet2_def fleet3_def
      selectAppFromList_def accessible_def Let_def)

text \<open>
  Claim C4 as stated fails: for the name \<open>acme/myfleet\<close>, which no fleet has, the caller
  \<open>alice\<close> is asked for a name with \<open>myfleet\<close> as default, and the fleet is created for
  the organization \<open>alice\<close>, not \<open>acme\<close>.
\<close>

theorem getOrSelectApplication_create_counterexample:
  "getOrSelectApplication sdk_noFleets form_acceptsDefault ''raspberrypi4-64'' (Some ''acme/myfleet'') =
     Some ([Confirm (''No fleet found with name \"acme/myfleet\".'' @ [LF] @ ''Would you like to create it now?''),
            AskInput ''Enter a name for your new fleet:'' (Some ''myfleet''),
            ApplicationCreate ''myfleet'' ''raspberrypi4-64'' ''alice''],
           Inr created)"
  by (simp add: getOrSelectApplication_def sdk_noFleets_def form_acceptsDefault_def truthy_def
      split_slash_def compatibleDeviceTypes_def rpi4_def nuc_def createApplication_def
      askApplicationName.simps after_def accessible_def Let_def)

lemma splitOn_no_sep: "sep \<notin> set s \<Longrightarrow> splitOn sep cur s = [cur @ s]"
  by (induction s arbitrary: cur) auto

lemma splitOn_sep:
  "sep \<notin> set a \<Longrightarrow> splitOn sep cur (a @ sep # b) = (cur @ a) # splitOn sep [] b"
  by (induction a arbitrary: cur) auto

lemma split_slash_two:
  assumes "CHR ''/'' \<notin> set ns" and "CHR ''/'' \<notin> set nm"
  shows "split_slash (ns @ ''/'' @ nm) = [ns, nm]"
  using assms by (simp add: split_slash_def splitOn_sep splitOn_no_sep)

lemma askApplicationName_collisions:
  assumes "\<forall>i<k. collides api form username dflt (n + i)"
    and "askName form (n + k) ''Enter a name for your new fleet:'' dflt = Inr chosen"
    and "application_getDirectlyAccessible api chosen (toLowerCase form username @ ''/'') = Inl notFound"
  shows "askApplicationName api form username dflt n evs =
           Some (evs @
                 concat (replicate k
                   [AskInput ''Enter a name for your new fleet:'' dflt,
                    PrintErrorMessage ''You already have a fleet with that name; please choose another.'']) @
                 [AskInput ''Enter a name for your new fleet:'' dflt],
                 Inr chosen)"
  using assms
proof (induction k arbitrary: n evs)
  case 0
  then show ?case by (subst askApplicationName.simps) simp
next
  case (Suc k)
  from Suc.prems(1) have "collides api form username dflt (n + 0)" by blast
  then obtain taken found where t: "askName form n ''Enter a name for your new fleet:'' dflt = Inr taken"
      "application_getDirectlyAccessible api taken (toLowerCase form username @ ''/'') = Inr found"
    by (auto simp: collides_def split: sum.splits)
  have "\<forall>i<k. collides api form username dflt (Suc n + i)"
    using Suc.prems(1) by (metis Suc_less_eq add_Suc_shift)
  moreover have "askName form (Suc n + k) ''Enter a name for your new fleet:'' dflt = Inr chosen"
    using Suc.prems(2) by simp
  ultimately have "askApplicationName api form username dflt (Suc n)
      (evs @ [AskInput ''Enter a name for your new fleet:'' dflt,
              PrintErrorMessage ''You already have a fleet with that name; please choose another.'']) =
      Some ((evs @ [AskInput ''Enter a name for your new fleet:'' dflt,
              PrintErrorMessage ''You already have a fleet with that name; please choose another.'']) @
            concat (replicate k
                   [AskInput ''Enter a name for your new fleet:'' dflt,
                    PrintErrorMessage ''You already have a fleet with that name; please choose another.'']) @
            [AskInput ''Enter a name for your new fleet:'' dflt], Inr chosen)"
    using Suc.prems(3) by (rule Suc.IH)
  with t show ?case by (subst askApplicationName.simps) simp
qed

text \<open>
  Claim C4, as amended. Let the fleet name be \<open>ns/name\<close> with one slash, let the query
  by the lower-case slug return no fleet, let the user confirm and the caller be logged
  in as \<open>username\<close>. If the first \<open>k\<close> names entered are taken and the next one,
  \<open>chosen\<close>, is not, then fleet resolution returns: it has asked for confirmation, has
  shown the name prompt \<open>k + 1\<close> times, each time with \<open>name\<close> as default, and has
  created the fleet \<open>chosen\<close> for the probed device type under the organization
  \<open>username\<close>, whatever \<open>ns\<close> is.
\<close>

theorem getOrSelectApplication_creates_under_caller:
  assumes "CHR ''/'' \<notin> set ns" and "CHR ''/'' \<notin> set nm"
    and "deviceType_get api deviceTypeSlug = Inr deviceType"
    and "deviceType_getAllSupported api = Inr allDeviceTypes"
    and "application_getAllDirectlyAccessible api (BySlug (toLowerCase form (ns @ ''/'' @ nm))) = Inr []"
    and "confirm form (''No fleet found with name \"'' @ ns @ ''/'' @ nm @ ''\".'' @ [LF] @
                       ''Would you like to create it now?'') = Inr ()"
    and "auth_whoami api = Inr (Some username)" and "username \<noteq> []"
    and "\<forall>i<k. collides api form username (Some nm) i"
    and "askName form k ''Enter a name for your new fleet:'' (Some nm) = Inr chosen"
    and "application_getDirectlyAccessible api chosen (toLowerCase form username @ ''/'') = Inl notFound"
  shows "getOrSelectApplication api form deviceTypeSlug (Some (ns @ ''/'' @ nm)) =
           Some (Confirm (''No fleet found with name \"'' @ ns @ ''/'' @ nm @ ''\".'' @ [LF] @
                          ''Would you like to create it now?'') #
                 concat (replicate k
                   [AskInput ''Enter a name for your new fleet:'' (Some nm),
                    PrintErrorMessage ''You already have a fleet with that name; please choose another.'']) @
                 [AskInput ''Enter a name for your new fleet:'' (Some nm),
                  ApplicationCreate chosen deviceTypeSlug username],
                 (case application_create api chosen deviceTypeSlug username of
                    Inl err \<Rightarrow> Inl err
                  | Inr newId \<Rightarrow> application_get api newId))"
proof -
  have loop: "askApplicationName api form username (Some nm) 0 [] =
           Some ([] @
                 concat (replicate k
                   [AskInput ''Enter a name for your new fleet:'' (Some nm),
                    PrintErrorMessage ''You already have a fleet with that name; please choose another.'']) @
                 [AskInput ''Enter a name for your new fleet:'' (Some nm)],
                 Inr chosen)"
    using assms(9,10,11) by (intro askApplicationName_collisions) simp_all
  have create: "createApplication api form deviceTypeSlug (Some nm) =
           Some (concat (replicate k
                   [AskInput ''Enter a name for your new fleet:'' (Some nm),
                    PrintErrorMessage ''You already have a fleet with that name; please choose another.'']) @
                 [AskInput ''Enter a name for your new fleet:'' (Some nm),
                  ApplicationCreate chosen deviceTypeSlug username],
                 (case application_create api chosen deviceTypeSlug username of
                    Inl err \<Rightarrow> Inl err
                  | Inr newId \<Rightarrow> application_get api newId))"
    using assms(7,8) loop by (simp add: createApplication_def truthy_def split: sum.splits)
  have sp: "split_slash (ns @ ''/'' @ nm) = [ns, nm]"
    using assms(1,2) by (rule split_slash_two)
  have tr: "truthy (Some (ns @ ''/'' @ nm))" by (simp add: truthy_def)
  show ?thesis
    using assms(3,4,5,6) create sp tr
    by (simp add: getOrSelectApplication_def Let_def after_def)
qed

text \<open>
  The theorem for the name \<open>Acme/myfleet\<close>, when the caller \<open>alice\<close> already has a
  fleet \<open>myfleet\<close> and enters \<open>myfleet2\<close> at the second prompt.
\<close>

theorem getOrSelectApplication_creates_under_caller_witness:
  "getOrSelectApplication sdk_nameTaken form_secondTry ''raspberrypi4-64'' (Some ''Acme/myfleet'') =
     Some ([Confirm (''No fleet found with name \"Acme/myfleet\".'' @ [LF] @ ''Would you like to create it now?''),
            AskInput ''Enter a name for your new fleet:'' (Some ''myfleet''),
            PrintErrorMessage ''You already have a fleet with that name; please choose another.'',
            AskInput ''Enter a name for your new fleet:'' (Some ''myfleet''),
            ApplicationCreate ''myfleet2'' ''raspberrypi4-64'' ''alice''],
           Inr created)"
  using getOrSelectApplication_creates_under_caller[where ns = "''Acme''" and nm = "''myfleet''"
      and api = sdk_nameTaken and form = form_secondTry and deviceTypeSlug = "''raspberrypi4-64''"
      and deviceType = rpi4 and allDeviceTypes = "[rpi4, nuc]" and username = "''alice''"
      and k = 1 and chosen = "''myfleet2''" and notFound = "Error ''Application not found''"]
  by (simp add: sdk_nameTaken_def form_secondTry_def collides_def accessible_def)

end
